theory Spec2Isabelle
  imports Complex_Main
begin

section \<open>Data model\<close>

text \<open>
  The trading environment is TypeScript. Its \<^verbatim>\<open>number\<close> values (quotes, stakes,
  balances, timestamps in seconds) are modelled as exact rationals: the arithmetic of the
  source is carried out without the rounding of IEEE doubles. Identifiers (instrument ids,
  candle sizes, position ids) are naturals and JavaScript strings are HOL strings.
  Fields keep the names of the source; where two interfaces share a field name, or the name
  is reserved, the field carries a short prefix (\<open>c_\<close> for a candle, \<open>pos_\<close> for a position,
  \<open>w_\<close> for the wallet, \<open>ev_\<close> for an event).
\<close>

type_synonym number = rat

datatype direction = Call | Put

record Candle =
  c_from :: number
  c_to :: number
  c_open :: number
  c_close :: number
  c_min :: number
  c_max :: number
  c_volume :: number
  c_active_id :: nat
  c_size :: nat

record Position =
  pos_id :: nat
  pos_active_id :: nat
  pos_direction :: direction
  pos_invest :: number
  open_quote :: number
  open_time :: number
  expiration_time :: number
  status :: string
  close_quote :: number
  close_reason :: string
  close_time :: number
  pnl :: "number option"
  pnl_realized :: "number option"

record PendingTrade =
  trade_id :: nat
  direction :: direction
  activeId :: nat
  invest :: number
  openQuote :: number
  openTime :: number
  expirationTime :: number
  expirationSize :: number
  profitPercent :: number

record BlitzOptionConfig =
  cfg_active_id :: nat
  profit_commission :: "number option"

section \<open>Wallet\<close>

text \<open>
  \<^verbatim>\<open>bustCallback\<close> is the closure installed with \<^verbatim>\<open>onBust\<close>; the only one the
  repository installs sets the runner's \<^verbatim>\<open>busted\<close> flag, so the wallet model records
  whether a callback is installed and whether it has fired.
\<close>

record Wallet =
  w_balance :: number
  w_peak :: number
  w_maxDrawdown :: number
  bustCallback :: bool
  busted :: bool

definition Wallet_new :: "number \<Rightarrow> Wallet" where
  "Wallet_new initialBalance =
     \<lparr>w_balance = initialBalance, w_peak = initialBalance, w_maxDrawdown = 0,
      bustCallback = False, busted = False\<rparr>"

definition getBalance :: "Wallet \<Rightarrow> number" where
  "getBalance w = w_balance w"

definition canAfford :: "Wallet \<Rightarrow> number \<Rightarrow> bool" where
  "canAfford w amount = (w_balance w \<ge> amount)"

definition debit :: "Wallet \<Rightarrow> number \<Rightarrow> Wallet" where
  "debit w amount =
     (let b = w_balance w - amount;
          dd = w_peak w - b;
          w1 = w\<lparr>w_balance := b,
                 w_maxDrawdown := (if dd > w_maxDrawdown w then dd else w_maxDrawdown w)\<rparr>
      in if b \<le> 0 \<and> bustCallback w then w1\<lparr>busted := True\<rparr> else w1)"

definition credit :: "Wallet \<Rightarrow> number \<Rightarrow> Wallet" where
  "credit w amount =
     (let b = w_balance w + amount
      in w\<lparr>w_balance := b, w_peak := (if b > w_peak w then b else w_peak w)\<rparr>)"

definition onBust :: "Wallet \<Rightarrow> Wallet" where
  "onBust w = w\<lparr>bustCallback := True\<rparr>"

section \<open>Environment state\<close>

record EnvironmentState =
  balance :: number
  openPositions :: "Position list"
  closedCount :: nat
  winCount :: nat
  lossCount :: nat
  totalPnl :: number
  drawdown :: number
  maxDrawdown :: number
  peak :: number
  streak :: int
  recentClosed :: "Position list"
  availableAssets :: "BlitzOptionConfig list"
  serverTime :: number

definition maxRecentClosed :: nat where
  "maxRecentClosed = 50"

definition EnvironmentState_new :: EnvironmentState where
  "EnvironmentState_new =
     \<lparr>balance = 0, openPositions = [], closedCount = 0, winCount = 0, lossCount = 0,
      totalPnl = 0, drawdown = 0, maxDrawdown = 0, peak = 0, streak = 0,
      recentClosed = [], availableAssets = [], serverTime = 0\<rparr>"

text \<open>\<^verbatim>\<open>Array.prototype.findIndex\<close>: the first index whose element satisfies the test.\<close>

fun findIndex :: "('a \<Rightarrow> bool) \<Rightarrow> 'a list \<Rightarrow> nat option" where
  "findIndex P [] = None"
| "findIndex P (x # xs) =
     (if P x then Some 0 else map_option Suc (findIndex P xs))"

text \<open>\<^verbatim>\<open>push\<close> followed by \<^verbatim>\<open>if (length > cap) shift()\<close>.\<close>

definition pushCapped :: "nat \<Rightarrow> 'a list \<Rightarrow> 'a \<Rightarrow> 'a list" where
  "pushCapped cap buf x = (let b = buf @ [x] in if length b > cap then tl b else b)"

definition onPositionChanged :: "EnvironmentState \<Rightarrow> Position \<Rightarrow> EnvironmentState" where
  "onPositionChanged s pos =
     (if status pos = ''open'' then
        (case findIndex (\<lambda>p. pos_id p = pos_id pos) (openPositions s) of
           Some existing \<Rightarrow> s\<lparr>openPositions := (openPositions s)[existing := pos]\<rparr>
         | None \<Rightarrow> s\<lparr>openPositions := openPositions s @ [pos]\<rparr>)
      else if status pos = ''closed'' then
        (let tp = totalPnl s + (case pnl pos of None \<Rightarrow> 0 | Some v \<Rightarrow> v);
             isWin = (close_reason pos = ''win'');
             pk = (if tp > peak s then tp else peak s);
             dd = pk - tp
         in s\<lparr>openPositions := filter (\<lambda>p. pos_id p \<noteq> pos_id pos) (openPositions s),
               closedCount := closedCount s + 1,
               totalPnl := tp,
               winCount := (if isWin then winCount s + 1 else winCount s),
               lossCount := (if isWin then lossCount s else lossCount s + 1),
               streak := (if isWin then (if streak s > 0 then streak s + 1 else 1)
                          else (if streak s < 0 then streak s - 1 else - 1)),
               peak := pk,
               drawdown := dd,
               maxDrawdown := (if dd > maxDrawdown s then dd else maxDrawdown s),
               recentClosed := pushCapped maxRecentClosed (recentClosed s) pos\<rparr>)
      else s)"

definition snapshot :: "EnvironmentState \<Rightarrow> EnvironmentState" where
  "snapshot s = s"

section \<open>Actions\<close>

text \<open>
  An action is a tagged payload. \<^verbatim>\<open>Unknown\<close> stands for an action object whose
  \<^verbatim>\<open>type\<close> is none of the four known strings (the TypeScript type forbids it, the
  live executor still guards against it).
\<close>

record TradePayload =
  tp_activeId :: nat
  tp_direction :: direction
  price :: number
  balanceId :: nat
  tp_expirationSize :: number
  tp_profitPercent :: "number option"
  currentPrice :: "number option"

datatype SensorType = CandleSensor | MoodSensor | PositionSensor | OrderSensor | BalanceSensor

record Sensor =
  sensor_id :: string
  sensor_type :: SensorType
  params_active_id :: "nat option"
  params_size :: "nat option"

record QueryPayload =
  q_method :: string
  q_activeId :: "nat option"
  q_size :: "nat option"
  q_from :: "number option"
  q_to :: "number option"

datatype Action =
    Trade TradePayload
  | Subscribe Sensor
  | Unsubscribe string
  | Query QueryPayload
  | Unknown string

fun action_type :: "Action \<Rightarrow> string" where
  "action_type (Trade _) = ''trade''"
| "action_type (Subscribe _) = ''subscribe''"
| "action_type (Unsubscribe _) = ''unsubscribe''"
| "action_type (Query _) = ''query''"
| "action_type (Unknown t) = t"

text \<open>
  What an action throws; the \<^verbatim>\<open>message\<close> of the source's \<^verbatim>\<open>Error\<close> is kept
  in structured form.
\<close>

datatype Error =
    CannotAfford number number
  | UnknownActionType string
  | UnknownQueryMethod string
  | FacadeError string
  | DatasetNotFound string
  | NoCandles

section \<open>Event bus\<close>

datatype EventType =
    TradePlaced | TradeClosed | PositionChanged | SensorUpdate | WalletChanged
  | AgentSignal | AgentDebug | RunStarted | RunStopped | WsReconnected
  | ActionExecuted | ActionFailed

text \<open>The payloads of \<^verbatim>\<open>EventPayloads\<close>, one constructor for each event type.\<close>

datatype EventPayload =
    TradePlacedP nat direction number number
  | TradeClosedP nat direction string number number
  | PositionChangedP nat string nat
  | SensorUpdateP string string
  | WalletChangedP number number string
  | AgentSignalP direction number "string list"
  | AgentDebugP string
  | RunStartedP string string
  | RunStoppedP string nat number
  | WsReconnectedP
  | ActionExecutedP string Action
  | ActionFailedP string Action Error

record TradingEvent =
  ev_runId :: string
  ev_type :: EventType
  ev_timestamp :: number
  ev_payload :: EventPayload

text \<open>
  Handlers and persistence functions are closures of the callers; they are identified by
  a number, and every call the bus makes to one of them is appended to a trace
  (\<open>handled\<close> for listeners, \<open>persisted\<close> for the persistence function). The key
  \<open>None\<close> of \<open>listeners\<close> is the wildcard \<^verbatim>\<open>"*"\<close>; a \<^verbatim>\<open>Set\<close> of handlers is a
  list without repetition in insertion order. \<open>timeFn\<close> holds the value the clock closure
  returns at present (the runner's \<^verbatim>\<open>simulatedTime\<close> in a backtest).
\<close>

record EventBus =
  listeners :: "EventType option \<Rightarrow> nat list"
  persistFn :: "nat option"
  buffer :: "TradingEvent list"
  bus_runId :: string
  timeFn :: number
  handled :: "(nat \<times> TradingEvent) list"
  persisted :: "(nat \<times> TradingEvent) list"

definition EventBus_new :: "string \<Rightarrow> number \<Rightarrow> EventBus" where
  "EventBus_new rid t =
     \<lparr>listeners = (\<lambda>_. []), persistFn = None, buffer = [], bus_runId = rid, timeFn = t,
      handled = [], persisted = []\<rparr>"

definition mkEvent :: "EventBus \<Rightarrow> EventType \<Rightarrow> EventPayload \<Rightarrow> TradingEvent" where
  "mkEvent b ty p =
     \<lparr>ev_runId = bus_runId b, ev_type = ty, ev_timestamp = timeFn b, ev_payload = p\<rparr>"

definition emit :: "EventBus \<Rightarrow> EventType \<Rightarrow> EventPayload \<Rightarrow> EventBus" where
  "emit b ty p =
     (let event = mkEvent b ty p;
          b1 = b\<lparr>handled := handled b @ map (\<lambda>h. (h, event)) (listeners b (Some ty))
                                        @ map (\<lambda>h. (h, event)) (listeners b None)\<rparr>
      in case persistFn b of
           Some fn \<Rightarrow> b1\<lparr>persisted := persisted b1 @ [(fn, event)]\<rparr>
         | None \<Rightarrow> b1\<lparr>buffer := buffer b1 @ [event]\<rparr>)"

definition on :: "EventBus \<Rightarrow> EventType option \<Rightarrow> nat \<Rightarrow> EventBus" where
  "on b ty h =
     b\<lparr>listeners := (listeners b)(ty := (if h \<in> set (listeners b ty) then listeners b ty
                                          else listeners b ty @ [h]))\<rparr>"

definition off :: "EventBus \<Rightarrow> EventType option \<Rightarrow> nat \<Rightarrow> EventBus" where
  "off b ty h = b\<lparr>listeners := (listeners b)(ty := removeAll h (listeners b ty))\<rparr>"

definition setPersist :: "EventBus \<Rightarrow> nat \<Rightarrow> EventBus" where
  "setPersist b fn =
     b\<lparr>persistFn := Some fn,
       persisted := persisted b @ map (\<lambda>event. (fn, event)) (buffer b),
       buffer := []\<rparr>"

text \<open>A sequence of emissions on one bus, in order.\<close>

fun emitAll :: "EventBus \<Rightarrow> (EventType \<times> EventPayload) list \<Rightarrow> EventBus" where
  "emitAll b [] = b"
| "emitAll b (e # es) = emitAll (emit b (fst e) (snd e)) es"

text \<open>The events a sequence of emissions creates on a bus with a given run id and clock.\<close>

definition eventsOf :: "string \<Rightarrow> number \<Rightarrow> (EventType \<times> EventPayload) list \<Rightarrow> TradingEvent list" where
  "eventsOf rid t es =
     map (\<lambda>e. \<lparr>ev_runId = rid, ev_type = fst e, ev_timestamp = t, ev_payload = snd e\<rparr>) es"

section \<open>Live sensor manager\<close>

text \<open>
  A sensor buffer holds whatever the push handlers deliver (\<^verbatim>\<open>unknown[]\<close>).
  \<^verbatim>\<open>maxBufferSize\<close> is whatever value the constructor was given in its fourth
  position: a number, or, when the caller passes something else, an object. The test
  \<^verbatim>\<open>buffer.length > this.maxBufferSize\<close> converts an object operand to
  \<^verbatim>\<open>NaN\<close>, and every comparison with \<^verbatim>\<open>NaN\<close> is false.
  The subscriptions that \<^verbatim>\<open>subscribe\<close> opens on the venue facades are outside
  the model; what they deliver arrives as calls of \<open>pushData\<close> and \<open>pushCandle\<close>.
  Update callbacks are identified by a number and each call is appended to \<open>sm_updates\<close>.
\<close>

datatype SensorItem = CandleItem Candle | MoodItem number | PositionItem Position | OrderItem nat

datatype js_value = Num nat | Obj

fun exceeds :: "nat \<Rightarrow> js_value \<Rightarrow> bool" where
  "exceeds n (Num m) = (n > m)"
| "exceeds n Obj = False"

record SensorManager =
  activeSensors :: "string \<rightharpoonup> Sensor"
  sensorData :: "string \<rightharpoonup> SensorItem list"
  sm_updateCallbacks :: "nat list"
  sm_maxBufferSize :: js_value
  sm_updates :: "(nat \<times> string \<times> SensorItem) list"

definition SensorManager_new :: "js_value option \<Rightarrow> SensorManager" where
  "SensorManager_new maxBufferSize =
     \<lparr>activeSensors = Map.empty, sensorData = Map.empty, sm_updateCallbacks = [],
      sm_maxBufferSize = (case maxBufferSize of None \<Rightarrow> Num 100 | Some v \<Rightarrow> v),
      sm_updates = []\<rparr>"

definition subscribe :: "SensorManager \<Rightarrow> Sensor \<Rightarrow> SensorManager" where
  "subscribe sm sensor =
     (if activeSensors sm (sensor_id sensor) \<noteq> None then sm
      else sm\<lparr>activeSensors := (activeSensors sm)(sensor_id sensor \<mapsto> sensor),
              sensorData := (sensorData sm)(sensor_id sensor \<mapsto> [])\<rparr>)"

definition unsubscribe :: "SensorManager \<Rightarrow> string \<Rightarrow> SensorManager" where
  "unsubscribe sm sensorId =
     (case activeSensors sm sensorId of
        None \<Rightarrow> sm
      | Some sensor \<Rightarrow> sm\<lparr>activeSensors := (activeSensors sm)(sensorId := None),
                          sensorData := (sensorData sm)(sensorId := None)\<rparr>)"

definition onUpdate :: "SensorManager \<Rightarrow> nat \<Rightarrow> SensorManager" where
  "onUpdate sm cb =
     sm\<lparr>sm_updateCallbacks := (if cb \<in> set (sm_updateCallbacks sm) then sm_updateCallbacks sm
                                 else sm_updateCallbacks sm @ [cb])\<rparr>"

definition offUpdate :: "SensorManager \<Rightarrow> nat \<Rightarrow> SensorManager" where
  "offUpdate sm cb = sm\<lparr>sm_updateCallbacks := removeAll cb (sm_updateCallbacks sm)\<rparr>"

definition fireUpdate :: "SensorManager \<Rightarrow> string \<Rightarrow> SensorItem \<Rightarrow> SensorManager" where
  "fireUpdate sm sensorId data =
     sm\<lparr>sm_updates := sm_updates sm @ map (\<lambda>cb. (cb, sensorId, data)) (sm_updateCallbacks sm)\<rparr>"

text \<open>\<^verbatim>\<open>buffer.push(x); if (buffer.length > this.maxBufferSize) buffer.shift()\<close>\<close>

definition pushShift :: "js_value \<Rightarrow> 'a list \<Rightarrow> 'a \<Rightarrow> 'a list" where
  "pushShift cap buf x = (let b = buf @ [x] in if exceeds (length b) cap then tl b else b)"

definition pushData :: "SensorManager \<Rightarrow> string \<Rightarrow> SensorItem \<Rightarrow> SensorManager" where
  "pushData sm sensorId data =
     (case sensorData sm sensorId of
        None \<Rightarrow> sm
      | Some buf \<Rightarrow>
          fireUpdate
            (sm\<lparr>sensorData := (sensorData sm)(sensorId \<mapsto> pushShift (sm_maxBufferSize sm) buf data)\<rparr>)
            sensorId data)"

text \<open>\<^verbatim>\<open>(last as Candle).from\<close>: only a candle has the field.\<close>

fun from_of :: "SensorItem \<Rightarrow> number option" where
  "from_of (CandleItem c) = Some (c_from c)"
| "from_of _ = None"

definition pushCandle :: "SensorManager \<Rightarrow> string \<Rightarrow> Candle \<Rightarrow> SensorManager" where
  "pushCandle sm sensorId candle =
     (case sensorData sm sensorId of
        None \<Rightarrow> sm
      | Some buf \<Rightarrow>
          if buf \<noteq> [] \<and> from_of (last buf) = Some (c_from candle) then
            fireUpdate
              (sm\<lparr>sensorData := (sensorData sm)(sensorId \<mapsto> buf[length buf - 1 := CandleItem candle])\<rparr>)
              sensorId (CandleItem candle)
          else
            fireUpdate
              (sm\<lparr>sensorData := (sensorData sm)(sensorId \<mapsto>
                     pushShift (sm_maxBufferSize sm) buf (CandleItem candle))\<rparr>)
              sensorId (CandleItem candle))"

definition prefill :: "SensorManager \<Rightarrow> string \<Rightarrow> SensorItem list \<Rightarrow> SensorManager" where
  "prefill sm sensorId data =
     (case sensorData sm sensorId of
        None \<Rightarrow> sm
      | Some buf \<Rightarrow>
          sm\<lparr>sensorData := (sensorData sm)(sensorId \<mapsto> foldl (pushShift (sm_maxBufferSize sm)) buf data)\<rparr>)"

definition getLatest :: "SensorManager \<Rightarrow> string \<Rightarrow> SensorItem list" where
  "getLatest sm sensorId = (case sensorData sm sensorId of None \<Rightarrow> [] | Some buf \<Rightarrow> buf)"

text \<open>Decimal rendering of an identifier inside a template string.\<close>

fun digits :: "nat \<Rightarrow> string" where
  "digits n = (if n < 10 then [char_of (48 + n)] else digits (n div 10) @ [char_of (48 + n mod 10)])"

definition candleId :: "nat \<Rightarrow> nat \<Rightarrow> string" where
  "candleId aid sz = ''candle:'' @ digits aid @ '':'' @ digits sz"

text \<open>
  The live environment's constructor calls
  \<^verbatim>\<open>new SensorManager(candles, trading, subscriptions, account)\<close>: the fourth
  positional argument, which the manager stores as \<^verbatim>\<open>maxBufferSize\<close>, is the
  account facade.
\<close>

definition TradingEnvironment_sensors :: SensorManager where
  "TradingEnvironment_sensors = SensorManager_new (Some Obj)"

text \<open>A sequence of candles delivered to one sensor by the venue's push handler.\<close>

definition pushCandles :: "SensorManager \<Rightarrow> string \<Rightarrow> Candle list \<Rightarrow> SensorManager" where
  "pushCandles sm sensorId cs = foldl (\<lambda>m c. pushCandle m sensorId c) sm cs"

definition pushAll :: "SensorManager \<Rightarrow> string \<Rightarrow> SensorItem list \<Rightarrow> SensorManager" where
  "pushAll sm sensorId xs = foldl (\<lambda>m x. pushData m sensorId x) sm xs"

section \<open>Backtest environment\<close>

text \<open>
  The agent is the caller's code. It is modelled by its three hooks as functions of what
  the environment hands over: \<open>initialize\<close> receives the run id of the agent context and
  the first observation, \<open>onObservation\<close> an observation, \<open>onTradeResult\<close> a closed
  position. Each hook returns the agent's own fields (the type \<open>'s\<close>), and the first two the
  actions the agent has the environment execute. The agent object's fields live in
  \<open>agentState\<close>. \<open>updateCallbacks\<close> holds one observation cycle for each call of
  \<open>runAgent\<close>.

  \<open>tradeResolvedCallback\<close> says whether the runner's recording closure is registered
  (the only one the repository registers); \<open>resolved\<close> is the sequence of its calls.
  \<open>observed\<close> is the sequence of observations handed to \<open>onObservation\<close>, each with
  the pending trades of that moment.
\<close>

record Observation =
  sensors :: "string \<rightharpoonup> Candle list"
  obs_state :: EnvironmentState
  timestamp :: number

record 's Agent =
  initialize :: "'s \<Rightarrow> string \<Rightarrow> Observation \<Rightarrow> 's \<times> Action list"
  onObservation :: "'s \<Rightarrow> Observation \<Rightarrow> 's \<times> Action list"
  onTradeResult :: "'s \<Rightarrow> Position \<Rightarrow> 's"

record ResolvedTrade =
  r_trade :: PendingTrade
  r_result :: string
  r_pnl :: number
  r_closePrice :: number
  r_walletAfter :: number

record 's BacktestEnvironment =
  state :: EnvironmentState
  sensorBuffers :: "string \<rightharpoonup> Candle list"
  subscribedSensors :: "string \<rightharpoonup> Sensor"
  updateCallbacks :: "'s Agent list"
  pendingTrades :: "PendingTrade list"
  currentTime :: number
  wallet :: Wallet
  eventBus :: "EventBus option"
  payoutPercent :: number
  nextPositionId :: nat
  assetConfig :: "BlitzOptionConfig option"
  allCandles :: "Candle list"
  agentRef :: "'s Agent option"
  tradeResolvedCallback :: bool
  agentState :: 's
  resolved :: "ResolvedTrade list"
  observed :: "(Observation \<times> PendingTrade list) list"

definition maxBufferSize :: nat where
  "maxBufferSize = 100"

definition BacktestEnvironment_new ::
  "Candle list \<Rightarrow> Wallet \<Rightarrow> EventBus option \<Rightarrow> BlitzOptionConfig option \<Rightarrow> number \<Rightarrow> 's
     \<Rightarrow> 's BacktestEnvironment" where
  "BacktestEnvironment_new cs w bus cfg payout s0 =
     \<lparr>state = EnvironmentState_new\<lparr>balance := getBalance w,
               availableAssets := (case cfg of None \<Rightarrow> [] | Some c \<Rightarrow> [c])\<rparr>,
      sensorBuffers = Map.empty, subscribedSensors = Map.empty, updateCallbacks = [],
      pendingTrades = [], currentTime = 0, wallet = w, eventBus = bus,
      payoutPercent = payout, nextPositionId = 1, assetConfig = cfg, allCandles = cs,
      agentRef = None, tradeResolvedCallback = False, agentState = s0,
      resolved = [], observed = []\<rparr>"

definition setEventBus :: "'s BacktestEnvironment \<Rightarrow> EventBus \<Rightarrow> 's BacktestEnvironment" where
  "setEventBus env bus = env\<lparr>eventBus := Some bus\<rparr>"

definition setCurrentTime :: "'s BacktestEnvironment \<Rightarrow> number \<Rightarrow> 's BacktestEnvironment" where
  "setCurrentTime env ts = env\<lparr>currentTime := ts, state := (state env)\<lparr>serverTime := ts\<rparr>\<rparr>"

definition onTradeResolved :: "'s BacktestEnvironment \<Rightarrow> 's BacktestEnvironment" where
  "onTradeResolved env = env\<lparr>tradeResolvedCallback := True\<rparr>"

definition getObservation :: "'s BacktestEnvironment \<Rightarrow> Observation" where
  "getObservation env =
     \<lparr>sensors = sensorBuffers env, obs_state = snapshot (state env), timestamp = currentTime env\<rparr>"

text \<open>\<^verbatim>\<open>if (this.eventBus) this.eventBus.emit(type, payload)\<close>\<close>

definition emitEvent ::
  "'s BacktestEnvironment \<Rightarrow> EventType \<Rightarrow> EventPayload \<Rightarrow> 's BacktestEnvironment" where
  "emitEvent env ty p =
     (case eventBus env of
        None \<Rightarrow> env
      | Some bus \<Rightarrow> env\<lparr>eventBus := Some (emit bus ty p)\<rparr>)"

definition getLatestClose :: "'s BacktestEnvironment \<Rightarrow> nat \<Rightarrow> number option" where
  "getLatestClose env aid =
     map_option c_close
       (find (\<lambda>c. c_active_id c = aid \<and> c_from c \<le> currentTime env) (rev (allCandles env)))"

definition findLastCandleForAsset :: "'s BacktestEnvironment \<Rightarrow> nat \<Rightarrow> Candle option" where
  "findLastCandleForAsset env aid = find (\<lambda>c. c_active_id c = aid) (rev (allCandles env))"

definition tradeToPosition ::
  "'s BacktestEnvironment \<Rightarrow> PendingTrade \<Rightarrow> string \<Rightarrow> (number \<times> string \<times> number) option
     \<Rightarrow> Position" where
  "tradeToPosition env trade st closeInfo =
     \<lparr>pos_id = trade_id trade,
      pos_active_id = activeId trade,
      pos_direction = direction trade,
      pos_invest = invest trade,
      open_quote = openQuote trade,
      open_time = openTime trade,
      expiration_time = expirationTime trade,
      status = st,
      close_quote = (case closeInfo of None \<Rightarrow> 0 | Some (closePrice, closeReason, p) \<Rightarrow> closePrice),
      close_reason = (case closeInfo of None \<Rightarrow> [] | Some (closePrice, closeReason, p) \<Rightarrow> closeReason),
      close_time = (case closeInfo of None \<Rightarrow> 0 | Some _ \<Rightarrow> currentTime env),
      pnl = (case closeInfo of None \<Rightarrow> Some 0 | Some (closePrice, closeReason, p) \<Rightarrow> Some p),
      pnl_realized = (case closeInfo of None \<Rightarrow> Some 0 | Some (closePrice, closeReason, p) \<Rightarrow> Some p)\<rparr>"

text \<open>
  \<open>executeTrade\<close> in the order of the source: the affordability check, the debit, the new
  pending trade, the open position fed to the state, the three events.
\<close>

definition newTrade :: "'s BacktestEnvironment \<Rightarrow> TradePayload \<Rightarrow> PendingTrade" where
  "newTrade env payload =
     \<lparr>trade_id = nextPositionId env,
      direction = tp_direction payload,
      activeId = tp_activeId payload,
      invest = price payload,
      openQuote = (case currentPrice payload of
                     Some q \<Rightarrow> q
                   | None \<Rightarrow> (case getLatestClose env (tp_activeId payload) of
                                Some q \<Rightarrow> q | None \<Rightarrow> 0)),
      openTime = currentTime env,
      expirationTime = currentTime env + tp_expirationSize payload,
      expirationSize = tp_expirationSize payload,
      profitPercent = (case tp_profitPercent payload of
                         Some q \<Rightarrow> q | None \<Rightarrow> payoutPercent env)\<rparr>"

definition placeTrade :: "'s BacktestEnvironment \<Rightarrow> TradePayload \<Rightarrow> 's BacktestEnvironment" where
  "placeTrade env payload =
     env\<lparr>wallet := debit (wallet env) (price payload),
         nextPositionId := nextPositionId env + 1,
         pendingTrades := pendingTrades env @ [newTrade env payload],
         state := onPositionChanged
                    ((state env)\<lparr>balance := getBalance (debit (wallet env) (price payload))\<rparr>)
                    (tradeToPosition env (newTrade env payload) ''open'' None)\<rparr>"

definition emitOpen ::
  "'s BacktestEnvironment \<Rightarrow> TradePayload \<Rightarrow> nat \<Rightarrow> number \<Rightarrow> 's BacktestEnvironment" where
  "emitOpen env payload new_id previousBalance =
     emitEvent
       (emitEvent
          (emitEvent env PositionChanged (PositionChangedP new_id ''open'' (tp_activeId payload)))
          TradePlaced
          (TradePlacedP (tp_activeId payload) (tp_direction payload) (price payload)
             (tp_expirationSize payload)))
       WalletChanged
       (WalletChangedP (getBalance (wallet env)) previousBalance ''trade:open'')"

definition executeTrade ::
  "'s BacktestEnvironment \<Rightarrow> TradePayload \<Rightarrow> Error + 's BacktestEnvironment" where
  "executeTrade env payload =
     (if \<not> canAfford (wallet env) (price payload)
      then Inl (CannotAfford (price payload) (getBalance (wallet env)))
      else Inr (emitOpen (placeTrade env payload) payload (nextPositionId env)
                  (getBalance (wallet env))))"

text \<open>\<^verbatim>\<open>historical.slice(-n)\<close> for a positive \<^verbatim>\<open>n\<close>: the last \<^verbatim>\<open>n\<close> elements.\<close>

definition sliceLast :: "nat \<Rightarrow> 'a list \<Rightarrow> 'a list" where
  "sliceLast n xs = drop (length xs - n) xs"

definition executeSubscribe :: "'s BacktestEnvironment \<Rightarrow> Sensor \<Rightarrow> 's BacktestEnvironment" where
  "executeSubscribe env sensor =
     (if subscribedSensors env (sensor_id sensor) \<noteq> None then env
      else
        let env1 = env\<lparr>subscribedSensors := (subscribedSensors env)(sensor_id sensor \<mapsto> sensor)\<rparr>;
            buf = (case sensorBuffers env (sensor_id sensor) of None \<Rightarrow> [] | Some b \<Rightarrow> b)
        in if sensor_type sensor = CandleSensor then
             let historical = filter (\<lambda>c. Some (c_active_id c) = params_active_id sensor
                                         \<and> Some (c_size c) = params_size sensor
                                         \<and> c_from c < currentTime env) (allCandles env);
                 toFill = sliceLast maxBufferSize historical
             in env1\<lparr>sensorBuffers := (sensorBuffers env)(sensor_id sensor \<mapsto> buf @ toFill)\<rparr>
           else env1\<lparr>sensorBuffers := (sensorBuffers env)(sensor_id sensor \<mapsto> buf)\<rparr>)"

definition executeUnsubscribe :: "'s BacktestEnvironment \<Rightarrow> string \<Rightarrow> 's BacktestEnvironment" where
  "executeUnsubscribe env sensorId =
     env\<lparr>subscribedSensors := (subscribedSensors env)(sensorId := None),
         sensorBuffers := (sensorBuffers env)(sensorId := None)\<rparr>"

datatype ActionValue =
    Undefined
  | Positions "Position list"
  | Balances "(nat \<times> number \<times> string) list"
  | Assets "BlitzOptionConfig list"
  | Mood number
  | Candles "Candle list"
  | Opaque string

definition getCandles :: "Candle list \<Rightarrow> nat option \<Rightarrow> nat option \<Rightarrow> number option \<Rightarrow> number option
     \<Rightarrow> Candle list" where
  "getCandles cs aid sz fr to =
     filter (\<lambda>c. Some (c_active_id c) = aid \<and> Some (c_size c) = sz
                \<and> (case fr of None \<Rightarrow> False | Some f \<Rightarrow> c_from c \<ge> f)
                \<and> (case to of None \<Rightarrow> False | Some t \<Rightarrow> c_from c \<le> t)) cs"

definition executeQuery :: "'s BacktestEnvironment \<Rightarrow> QueryPayload \<Rightarrow> ActionValue" where
  "executeQuery env payload =
     (if q_method payload = ''getPositions'' then Positions (openPositions (state env))
      else if q_method payload = ''getHistory'' then Positions (recentClosed (snapshot (state env)))
      else if q_method payload = ''getBalances'' then Balances [(0, balance (state env), ''USD'')]
      else if q_method payload = ''getAssets'' then Assets (availableAssets (state env))
      else if q_method payload = ''getTradersMood'' then Mood (1 / 2)
      else if q_method payload = ''getCandles'' then
        Candles (getCandles (allCandles env) (q_activeId payload) (q_size payload)
                   (q_from payload) (q_to payload))
      else Undefined)"

text \<open>
  The result of \<open>executeAction\<close> is the value it returns or the error it throws, with the
  environment it leaves. An unknown action type falls through the \<^verbatim>\<open>switch\<close> and
  returns \<^verbatim>\<open>undefined\<close>.
\<close>

fun executeAction ::
  "'s BacktestEnvironment \<Rightarrow> Action \<Rightarrow> (Error + ActionValue) \<times> 's BacktestEnvironment" where
  "executeAction env (Trade payload) =
     (case executeTrade env payload of
        Inl err \<Rightarrow> (Inl err, env)
      | Inr env1 \<Rightarrow> (Inr Undefined, env1))"
| "executeAction env (Subscribe sensor) = (Inr Undefined, executeSubscribe env sensor)"
| "executeAction env (Unsubscribe sensorId) = (Inr Undefined, executeUnsubscribe env sensorId)"
| "executeAction env (Query payload) = (Inr (executeQuery env payload), env)"
| "executeAction env (Unknown t) = (Inr Undefined, env)"

record ActionResult =
  actionIndex :: nat
  ar_type :: string
  outcome :: "Error + ActionValue"

text \<open>
  Both environments run the same loop over the batch; it is written once, over the function
  that executes one action (\<open>exec\<close>) and the guarded emission of the environment
  (\<open>emitE\<close>). \<open>i\<close> is the loop index and \<open>results\<close> the array built so far.
\<close>

fun executeActionsLoop ::
  "('e \<Rightarrow> Action \<Rightarrow> (Error + ActionValue) \<times> 'e) \<Rightarrow> ('e \<Rightarrow> EventType \<Rightarrow> EventPayload \<Rightarrow> 'e)
     \<Rightarrow> nat \<Rightarrow> Action list \<Rightarrow> ActionResult list \<Rightarrow> 'e \<Rightarrow> ActionResult list \<times> 'e" where
  "executeActionsLoop exec emitE i [] results env = (results, env)"
| "executeActionsLoop exec emitE i (action # rest) results env =
     (case exec env action of
        (Inr result, env1) \<Rightarrow>
          executeActionsLoop exec emitE (i + 1) rest
            (results @ [\<lparr>actionIndex = i, ar_type = action_type action, outcome = Inr result\<rparr>])
            (emitE env1 ActionExecuted (ActionExecutedP (action_type action) action))
      | (Inl err, env1) \<Rightarrow>
          executeActionsLoop exec emitE (i + 1) rest
            (results @ [\<lparr>actionIndex = i, ar_type = action_type action, outcome = Inl err\<rparr>])
            (emitE env1 ActionFailed (ActionFailedP (action_type action) action err)))"

definition executeActions ::
  "'s BacktestEnvironment \<Rightarrow> Action list \<Rightarrow> ActionResult list \<times> 's BacktestEnvironment" where
  "executeActions env actions = executeActionsLoop executeAction emitEvent 0 actions [] env"

subsection \<open>Settlement\<close>

text \<open>
  \<open>resolveTradeAtPrice\<close> in the order of the source. The local constants
  \<^verbatim>\<open>isTie\<close>, \<^verbatim>\<open>isWin\<close>, \<^verbatim>\<open>pnl\<close> and \<^verbatim>\<open>closeReason\<close> are functions of the
  trade and the close price; then follow the wallet credit, the closed position fed to the
  state, the events, the runner's callback and the agent's hook.
\<close>

definition isTie :: "PendingTrade \<Rightarrow> number \<Rightarrow> bool" where
  "isTie trade closePrice = (closePrice = openQuote trade)"

definition isWin :: "PendingTrade \<Rightarrow> number \<Rightarrow> bool" where
  "isWin trade closePrice =
     (\<not> isTie trade closePrice \<and>
      ((direction trade = Call \<and> closePrice > openQuote trade)
       \<or> (direction trade = Put \<and> closePrice < openQuote trade)))"

definition tradePnl :: "PendingTrade \<Rightarrow> number \<Rightarrow> number" where
  "tradePnl trade closePrice =
     (if isTie trade closePrice then 0
      else if isWin trade closePrice then invest trade * (profitPercent trade / 100)
      else - invest trade)"

definition closeReasonOf :: "PendingTrade \<Rightarrow> number \<Rightarrow> string" where
  "closeReasonOf trade closePrice =
     (if isTie trade closePrice then ''tie''
      else if isWin trade closePrice then ''win''
      else ''loss'')"

definition settleWallet :: "'s BacktestEnvironment \<Rightarrow> PendingTrade \<Rightarrow> number \<Rightarrow> 's BacktestEnvironment" where
  "settleWallet env trade closePrice =
     (let w1 = (if isTie trade closePrice then credit (wallet env) (invest trade)
                else if isWin trade closePrice
                then credit (wallet env) (invest trade + tradePnl trade closePrice)
                else wallet env)
      in env\<lparr>wallet := w1, state := (state env)\<lparr>balance := getBalance w1\<rparr>\<rparr>)"

definition closedPosition :: "'s BacktestEnvironment \<Rightarrow> PendingTrade \<Rightarrow> number \<Rightarrow> Position" where
  "closedPosition env trade closePrice =
     tradeToPosition env trade ''closed''
       (Some (closePrice, closeReasonOf trade closePrice, tradePnl trade closePrice))"

definition emitClose :: "'s BacktestEnvironment \<Rightarrow> PendingTrade \<Rightarrow> number \<Rightarrow> 's BacktestEnvironment" where
  "emitClose env trade closePrice =
     (let env3 = emitEvent env PositionChanged
                   (PositionChangedP (trade_id trade) ''closed'' (activeId trade));
          env4 = emitEvent env3 TradeClosed
                   (TradeClosedP (trade_id trade) (direction trade)
                      (if isTie trade closePrice then ''loss''
                       else if isWin trade closePrice then ''win'' else ''loss'')
                      (tradePnl trade closePrice) (invest trade))
      in if \<not> isTie trade closePrice then
           emitEvent env4 WalletChanged
             (WalletChangedP (getBalance (wallet env))
                (if isWin trade closePrice
                 then getBalance (wallet env) - invest trade - tradePnl trade closePrice
                 else getBalance (wallet env))
                (if isWin trade closePrice then ''trade:win'' else ''trade:loss''))
         else env4)"

definition notifyRunner :: "'s BacktestEnvironment \<Rightarrow> PendingTrade \<Rightarrow> number \<Rightarrow> 's BacktestEnvironment" where
  "notifyRunner env trade closePrice =
     env\<lparr>resolved :=
           (if tradeResolvedCallback env then
              resolved env @
                [\<lparr>r_trade = trade,
                  r_result = (if isTie trade closePrice then ''tie''
                              else if isWin trade closePrice then ''win'' else ''loss''),
                  r_pnl = tradePnl trade closePrice, r_closePrice = closePrice,
                  r_walletAfter = getBalance (wallet env)\<rparr>]
            else resolved env)\<rparr>"

definition notifyAgent :: "'s BacktestEnvironment \<Rightarrow> Position \<Rightarrow> 's BacktestEnvironment" where
  "notifyAgent env closedPos =
     env\<lparr>agentState :=
           (case agentRef env of
              None \<Rightarrow> agentState env
            | Some agent \<Rightarrow> onTradeResult agent (agentState env) closedPos)\<rparr>"

definition closePosition :: "'s BacktestEnvironment \<Rightarrow> Position \<Rightarrow> 's BacktestEnvironment" where
  "closePosition env closedPos = env\<lparr>state := onPositionChanged (state env) closedPos\<rparr>"

definition resolveTradeAtPrice ::
  "'s BacktestEnvironment \<Rightarrow> PendingTrade \<Rightarrow> number \<Rightarrow> 's BacktestEnvironment" where
  "resolveTradeAtPrice env trade closePrice =
     (let env1 = settleWallet env trade closePrice;
          closedPos = closedPosition env1 trade closePrice;
          env2 = closePosition env1 closedPos;
          env5 = emitClose env2 trade closePrice;
          env6 = notifyRunner env5 trade closePrice
      in notifyAgent env6 closedPos)"

definition resolveTrade :: "'s BacktestEnvironment \<Rightarrow> PendingTrade \<Rightarrow> 's BacktestEnvironment" where
  "resolveTrade env trade =
     (case find (\<lambda>c. c_active_id c = activeId trade \<and> c_from c \<ge> expirationTime trade)
             (allCandles env) of
        None \<Rightarrow>
          (case findLastCandleForAsset env (activeId trade) of
             Some lastKnown \<Rightarrow> resolveTradeAtPrice env trade (c_close lastKnown)
           | None \<Rightarrow> resolveTradeAtPrice env trade (openQuote trade))
      | Some expirationCandle \<Rightarrow> resolveTradeAtPrice env trade (c_close expirationCandle))"

definition checkExpirations :: "'s BacktestEnvironment \<Rightarrow> 's BacktestEnvironment" where
  "checkExpirations env =
     (let toClose = filter (\<lambda>trade. expirationTime trade \<le> currentTime env) (pendingTrades env);
          remaining = filter (\<lambda>trade. \<not> expirationTime trade \<le> currentTime env) (pendingTrades env)
      in foldl resolveTrade (env\<lparr>pendingTrades := remaining\<rparr>) toClose)"

definition forceClosePrice :: "'s BacktestEnvironment \<Rightarrow> number \<Rightarrow> PendingTrade \<Rightarrow> number" where
  "forceClosePrice env lastPrice trade =
     (case findLastCandleForAsset env (activeId trade) of
        Some lastAssetCandle \<Rightarrow> c_close lastAssetCandle
      | None \<Rightarrow> lastPrice)"

definition forceCloseAll :: "'s BacktestEnvironment \<Rightarrow> number \<Rightarrow> 's BacktestEnvironment" where
  "forceCloseAll env lastPrice =
     (let trades = pendingTrades env
      in foldl (\<lambda>e trade. resolveTradeAtPrice e trade (forceClosePrice e lastPrice trade))
           (env\<lparr>pendingTrades := []\<rparr>) trades)"

definition getPendingTradeCount :: "'s BacktestEnvironment \<Rightarrow> nat" where
  "getPendingTradeCount env = length (pendingTrades env)"

subsection \<open>The observation cycle and the candle feed\<close>

text \<open>The callback that \<open>runAgent\<close> registers: observe, ask the agent, execute its actions.\<close>

definition observationCycle :: "'s BacktestEnvironment \<Rightarrow> 's Agent \<Rightarrow> 's BacktestEnvironment" where
  "observationCycle env agent =
     (let obs = getObservation env;
          r = onObservation agent (agentState env) obs;
          env1 = env\<lparr>agentState := fst r, observed := observed env @ [(obs, pendingTrades env)]\<rparr>
      in if snd r \<noteq> [] then snd (executeActions env1 (snd r)) else env1)"

definition fireCallbacks :: "'s BacktestEnvironment \<Rightarrow> 's BacktestEnvironment" where
  "fireCallbacks env = foldl observationCycle env (updateCallbacks env)"

definition feedCandle :: "'s BacktestEnvironment \<Rightarrow> Candle \<Rightarrow> 's BacktestEnvironment" where
  "feedCandle env candle =
     (let sensorId = candleId (c_active_id candle) (c_size candle) in
      case sensorBuffers env sensorId of
        None \<Rightarrow> env
      | Some buf \<Rightarrow>
          if buf \<noteq> [] \<and> c_from (last buf) = c_from candle then
            fireCallbacks (env\<lparr>sensorBuffers := (sensorBuffers env)(sensorId \<mapsto> buf[length buf - 1 := candle])\<rparr>)
          else
            fireCallbacks (env\<lparr>sensorBuffers := (sensorBuffers env)(sensorId \<mapsto>
                                pushCapped maxBufferSize buf candle)\<rparr>))"

definition prefillSensor :: "'s BacktestEnvironment \<Rightarrow> string \<Rightarrow> Candle list \<Rightarrow> 's BacktestEnvironment" where
  "prefillSensor env sensorId data =
     (case sensorBuffers env sensorId of
        None \<Rightarrow> env
      | Some buf \<Rightarrow>
          env\<lparr>sensorBuffers := (sensorBuffers env)(sensorId \<mapsto> foldl (pushCapped maxBufferSize) buf data)\<rparr>)"

definition runAgent :: "'s BacktestEnvironment \<Rightarrow> 's Agent \<Rightarrow> string \<Rightarrow> 's BacktestEnvironment" where
  "runAgent env agent ctxRunId =
     (let env1 = env\<lparr>agentRef := Some agent\<rparr>;
          r = initialize agent (agentState env1) ctxRunId (getObservation env1);
          env2 = snd (executeActions (env1\<lparr>agentState := fst r\<rparr>) (snd r))
      in env2\<lparr>updateCallbacks := updateCallbacks env2 @ [agent]\<rparr>)"

section \<open>Live environment: action execution\<close>

text \<open>
  The venue facades (trading, account, assets, subscriptions, candles) are external. Their
  state is the type \<open>'w\<close>, and one call is the function \<open>venue\<close>: it answers an action with a
  value or with the error it rejects the call with.
\<close>

record 'w TradingEnvironment =
  te_sensors :: SensorManager
  te_state :: EnvironmentState
  te_eventBus :: "EventBus option"
  facades :: 'w

definition TradingEnvironment_new :: "'w \<Rightarrow> 'w TradingEnvironment" where
  "TradingEnvironment_new w =
     \<lparr>te_sensors = TradingEnvironment_sensors, te_state = EnvironmentState_new,
      te_eventBus = None, facades = w\<rparr>"

definition te_emitEvent ::
  "'w TradingEnvironment \<Rightarrow> EventType \<Rightarrow> EventPayload \<Rightarrow> 'w TradingEnvironment" where
  "te_emitEvent env ty p =
     (case te_eventBus env of
        None \<Rightarrow> env
      | Some bus \<Rightarrow> env\<lparr>te_eventBus := Some (emit bus ty p)\<rparr>)"

definition liveQueryMethods :: "string list" where
  "liveQueryMethods =
     [''getPositions'', ''getOrders'', ''getHistory'', ''getBalances'', ''getAssets'',
      ''getTradersMood'', ''getCandles'']"

definition callVenue ::
  "('w \<Rightarrow> Action \<Rightarrow> (Error + ActionValue) \<times> 'w) \<Rightarrow> 'w TradingEnvironment \<Rightarrow> Action
     \<Rightarrow> (Error + ActionValue) \<times> 'w TradingEnvironment" where
  "callVenue venue env a = (fst (venue (facades env) a), env\<lparr>facades := snd (venue (facades env) a)\<rparr>)"

fun execute ::
  "('w \<Rightarrow> Action \<Rightarrow> (Error + ActionValue) \<times> 'w) \<Rightarrow> 'w TradingEnvironment \<Rightarrow> Action
     \<Rightarrow> (Error + ActionValue) \<times> 'w TradingEnvironment" where
  "execute venue env (Trade payload) = callVenue venue env (Trade payload)"
| "execute venue env (Subscribe sensor) =
     (Inr Undefined, env\<lparr>te_sensors := subscribe (te_sensors env) sensor\<rparr>)"
| "execute venue env (Unsubscribe sensorId) =
     (Inr Undefined, env\<lparr>te_sensors := unsubscribe (te_sensors env) sensorId\<rparr>)"
| "execute venue env (Query payload) =
     (if q_method payload \<in> set liveQueryMethods then callVenue venue env (Query payload)
      else (Inl (UnknownQueryMethod (q_method payload)), env))"
| "execute venue env (Unknown t) = (Inl (UnknownActionType t), env)"

definition live_executeActions ::
  "('w \<Rightarrow> Action \<Rightarrow> (Error + ActionValue) \<times> 'w) \<Rightarrow> 'w TradingEnvironment \<Rightarrow> Action list
     \<Rightarrow> ActionResult list \<times> 'w TradingEnvironment" where
  "live_executeActions venue env actions =
     executeActionsLoop (execute venue) te_emitEvent 0 actions [] env"

section \<open>Backtest runner\<close>

text \<open>
  \<open>run\<close> reads the datasets from the database, and from outside only this: the date and
  the random suffix that go into the run id, and whether the event persister can be
  created. The requests it sends to the observability service (run registration, trade
  records, wallet snapshots, progress output) return nothing that it uses and are left out.
  A dataset is what the two queries return for its name: the asset configuration and the
  rows in ascending order of \<open>from\<close>. The counters of the recording closure
  (\<^verbatim>\<open>wins\<close>, \<^verbatim>\<open>losses\<close>, \<^verbatim>\<open>ties\<close>, \<^verbatim>\<open>totalPnl\<close>) are read off the
  sequence of its calls.
\<close>

record BacktestConfig =
  agentName :: string
  datasetNames :: "string list"
  initialBalance :: number
  cfg_payoutPercent :: "number option"

record Dataset =
  ds_assetConfig :: "BlitzOptionConfig option"
  ds_rows :: "Candle list"

record External =
  today :: string
  rand :: string
  persisterAvailable :: bool

record BacktestResult =
  res_runId :: string
  res_trades :: nat
  res_wins :: nat
  res_losses :: nat
  res_winRate :: number
  res_pnl :: number
  res_maxDrawdown :: number
  finalBalance :: number
  durationCandles :: nat

text \<open>\<^verbatim>\<open>!this.config.payoutPercent\<close>: true for a missing and for a zero payout.\<close>

definition noPayout :: "BacktestConfig \<Rightarrow> bool" where
  "noPayout cfg = (case cfg_payoutPercent cfg of None \<Rightarrow> True | Some v \<Rightarrow> v = 0)"

fun loadDatasets ::
  "(string \<rightharpoonup> Dataset) \<Rightarrow> BacktestConfig \<Rightarrow> string list \<Rightarrow> Candle list
     \<Rightarrow> BlitzOptionConfig option \<Rightarrow> number
     \<Rightarrow> Error + (Candle list \<times> BlitzOptionConfig option \<times> number)" where
  "loadDatasets db cfg [] cs ac pp = Inr (cs, ac, pp)"
| "loadDatasets db cfg (dsName # rest) cs ac pp =
     (case db dsName of
        None \<Rightarrow> Inl (DatasetNotFound dsName)
      | Some ds \<Rightarrow>
          (case (ac, ds_assetConfig ds) of
             (None, Some a) \<Rightarrow>
               loadDatasets db cfg rest (cs @ ds_rows ds) (Some a)
                 (case profit_commission a of
                    Some pc \<Rightarrow> (if noPayout cfg then 100 - pc else pp)
                  | None \<Rightarrow> pp)
           | _ \<Rightarrow> loadDatasets db cfg rest (cs @ ds_rows ds) ac pp))"

definition mkRunId :: "BacktestConfig \<Rightarrow> External \<Rightarrow> string" where
  "mkRunId cfg ext = ''bt-'' @ agentName cfg @ ''-'' @ today ext @ ''-'' @ rand ext"

text \<open>The runner's variable \<^verbatim>\<open>simulatedTime\<close>, which the clock of the bus reads.\<close>

definition setSimulatedTime :: "'s BacktestEnvironment \<Rightarrow> number \<Rightarrow> 's BacktestEnvironment" where
  "setSimulatedTime env t = env\<lparr>eventBus := map_option (\<lambda>b. b\<lparr>timeFn := t\<rparr>) (eventBus env)\<rparr>"

text \<open>Steps 2 to 9 of \<open>run\<close>, up to the replay loop.\<close>

definition prepare ::
  "BacktestConfig \<Rightarrow> External \<Rightarrow> Candle list \<Rightarrow> BlitzOptionConfig option \<Rightarrow> number
     \<Rightarrow> 's Agent \<Rightarrow> 's \<Rightarrow> 's BacktestEnvironment" where
  "prepare cfg ext cs assetCfg payout agent s0 =
     (let w = Wallet_new (initialBalance cfg);
          runId = mkRunId cfg ext;
          bus0 = EventBus_new runId (c_from (hd cs));
          bus = (if persisterAvailable ext then setPersist bus0 0 else bus0);
          env0 = BacktestEnvironment_new cs w (Some bus) assetCfg payout s0;
          env1 = onTradeResolved env0;
          env2 = emitEvent env1 RunStarted (RunStartedP (''backtest:'' @ agentName cfg) (agentName cfg));
          env3 = setCurrentTime env2 (c_from (hd cs));
          env4 = runAgent env3 agent runId
      in env4\<lparr>wallet := onBust (wallet env4)\<rparr>)"

text \<open>Step 9, the main loop.\<close>

fun replay :: "'s BacktestEnvironment \<Rightarrow> Candle list \<Rightarrow> 's BacktestEnvironment" where
  "replay env [] = env"
| "replay env (candle # rest) =
     (if busted (wallet env) then env
      else replay
             (feedCandle
                (checkExpirations
                   (setCurrentTime (setSimulatedTime env (c_from candle)) (c_from candle)))
                candle)
             rest)"

text \<open>\<^verbatim>\<open>Math.round(x * 100) / 100\<close>; \<^verbatim>\<open>Math.round\<close> rounds halves upwards.\<close>

definition round2 :: "number \<Rightarrow> number" where
  "round2 x = of_int \<lfloor>x * 100 + 1 / 2\<rfloor> / 100"

definition countResult :: "string \<Rightarrow> ResolvedTrade list \<Rightarrow> nat" where
  "countResult r rs = length (filter (\<lambda>x. r_result x = r) rs)"

definition finish :: "BacktestConfig \<Rightarrow> External \<Rightarrow> Candle list \<Rightarrow> 's BacktestEnvironment
     \<Rightarrow> BacktestResult \<times> 's BacktestEnvironment" where
  "finish cfg ext cs env =
     (let env1 = forceCloseAll env (c_close (last cs));
          wins = countResult ''win'' (resolved env1);
          losses = countResult ''loss'' (resolved env1);
          ties = countResult ''tie'' (resolved env1);
          total = sum_list (map r_pnl (resolved env1));
          totalTrades = wins + losses + ties;
          env2 = emitEvent env1 RunStopped
                   (RunStoppedP (if busted (wallet env1) then ''bust'' else ''complete'')
                      totalTrades total)
      in (\<lparr>res_runId = mkRunId cfg ext,
           res_trades = totalTrades,
           res_wins = wins,
           res_losses = losses,
           res_winRate = (if totalTrades > 0
                          then of_int \<lfloor>((of_nat wins :: number) / of_nat totalTrades) * 10000 + 1 / 2\<rfloor> / 100
                          else 0),
           res_pnl = round2 total,
           res_maxDrawdown = round2 (w_maxDrawdown (wallet env1)),
           finalBalance = round2 (getBalance (wallet env1)),
           durationCandles = length cs\<rparr>, env2))"

definition run ::
  "BacktestConfig \<Rightarrow> (string \<rightharpoonup> Dataset) \<Rightarrow> External \<Rightarrow> 's Agent \<Rightarrow> 's
     \<Rightarrow> Error + (BacktestResult \<times> 's BacktestEnvironment)" where
  "run cfg db ext agent s0 =
     (case loadDatasets db cfg (datasetNames cfg) [] None
             (case cfg_payoutPercent cfg of None \<Rightarrow> 80 | Some v \<Rightarrow> v) of
        Inl err \<Rightarrow> Inl err
      | Inr (loaded, assetCfg, payout) \<Rightarrow>
          if loaded = [] then Inl NoCandles
          else
            let cs = sort_key c_from loaded
            in Inr (finish cfg ext cs (replay (prepare cfg ext cs assetCfg payout agent s0) cs)))"

section \<open>Sample data\<close>

text \<open>Concrete inputs on which the theorems below are instantiated.\<close>

definition sampleCandle :: "number \<Rightarrow> number \<Rightarrow> Candle" where
  "sampleCandle fr cl =
     \<lparr>c_from = fr, c_to = fr + 60, c_open = cl, c_close = cl,
      c_min = cl, c_max = cl, c_volume = 0, c_active_id = 76, c_size = 60\<rparr>"

definition sampleSensor :: Sensor where
  "sampleSensor =
     \<lparr>sensor_id = candleId 76 60, sensor_type = CandleSensor,
      params_active_id = Some 76, params_size = Some 60\<rparr>"

definition samplePayload :: "direction \<Rightarrow> TradePayload" where
  "samplePayload d =
     \<lparr>tp_activeId = 76, tp_direction = d, price = 20, balanceId = 0, tp_expirationSize = 60,
      tp_profitPercent = Some 85, currentPrice = Some (11 / 10)\<rparr>"

definition sampleEnv :: "unit BacktestEnvironment" where
  "sampleEnv =
     BacktestEnvironment_new [sampleCandle 0 (11 / 10), sampleCandle 60 (1101 / 1000)]
       (Wallet_new 100) None None 80 ()"

definition tiePosition :: Position where
  "tiePosition =
     \<lparr>pos_id = 1, pos_active_id = 76, pos_direction = Call, pos_invest = 20,
      open_quote = 11 / 10, open_time = 0, expiration_time = 60, status = ''closed'',
      close_quote = 11 / 10, close_reason = ''tie'', close_time = 60,
      pnl = Some 0, pnl_realized = Some 0\<rparr>"

definition winningCall :: "PendingTrade \<Rightarrow> PendingTrade" where
  "winningCall t = t\<lparr>direction := Call, invest := 20, profitPercent := 85, openQuote := 11 / 10\<rparr>"

section \<open>Basic facts\<close>

lemma emitEvent_alt:
  "emitEvent env ty p = env\<lparr>eventBus := map_option (\<lambda>b. emit b ty p) (eventBus env)\<rparr>"
  by (cases "eventBus env") (simp_all add: emitEvent_def)

lemma last_pushCapped: "0 < cap \<Longrightarrow> last (pushCapped cap buf x) = x"
  by (cases buf) (auto simp: pushCapped_def Let_def)

lemma credit_balance [simp]: "w_balance (credit w a) = w_balance w + a"
  by (simp add: credit_def Let_def)

lemma debit_balance [simp]: "w_balance (debit w a) = w_balance w - a"
  by (simp add: debit_def Let_def)

lemma emitClose_frame [simp]:
  "state (emitClose env trade cp) = state env"
  "wallet (emitClose env trade cp) = wallet env"
  "pendingTrades (emitClose env trade cp) = pendingTrades env"
  "allCandles (emitClose env trade cp) = allCandles env"
  "tradeResolvedCallback (emitClose env trade cp) = tradeResolvedCallback env"
  "currentTime (emitClose env trade cp) = currentTime env"
  "updateCallbacks (emitClose env trade cp) = updateCallbacks env"
  "agentRef (emitClose env trade cp) = agentRef env"
  "agentState (emitClose env trade cp) = agentState env"
  "observed (emitClose env trade cp) = observed env"
  "resolved (emitClose env trade cp) = resolved env"
  by (simp_all add: emitClose_def Let_def emitEvent_alt)

lemma emitOpen_frame [simp]:
  "state (emitOpen env payload i b) = state env"
  "wallet (emitOpen env payload i b) = wallet env"
  "pendingTrades (emitOpen env payload i b) = pendingTrades env"
  "allCandles (emitOpen env payload i b) = allCandles env"
  "tradeResolvedCallback (emitOpen env payload i b) = tradeResolvedCallback env"
  "currentTime (emitOpen env payload i b) = currentTime env"
  "updateCallbacks (emitOpen env payload i b) = updateCallbacks env"
  "agentRef (emitOpen env payload i b) = agentRef env"
  "agentState (emitOpen env payload i b) = agentState env"
  "observed (emitOpen env payload i b) = observed env"
  "resolved (emitOpen env payload i b) = resolved env"
  by (simp_all add: emitOpen_def emitEvent_alt)

lemma resolve_wallet:
  "wallet (resolveTradeAtPrice env trade cp) =
     (if isTie trade cp then credit (wallet env) (invest trade)
      else if isWin trade cp then credit (wallet env) (invest trade + tradePnl trade cp)
      else wallet env)"
  by (simp add: resolveTradeAtPrice_def Let_def notifyAgent_def notifyRunner_def closePosition_def
      settleWallet_def)

lemma resolve_frame [simp]:
  "pendingTrades (resolveTradeAtPrice env trade cp) = pendingTrades env"
  "allCandles (resolveTradeAtPrice env trade cp) = allCandles env"
  "tradeResolvedCallback (resolveTradeAtPrice env trade cp) = tradeResolvedCallback env"
  "currentTime (resolveTradeAtPrice env trade cp) = currentTime env"
  "updateCallbacks (resolveTradeAtPrice env trade cp) = updateCallbacks env"
  "agentRef (resolveTradeAtPrice env trade cp) = agentRef env"
  "observed (resolveTradeAtPrice env trade cp) = observed env"
  by (simp_all add: resolveTradeAtPrice_def Let_def notifyAgent_def notifyRunner_def closePosition_def
      settleWallet_def)

lemma resolve_state:
  "state (resolveTradeAtPrice env trade cp) =
     onPositionChanged ((state env)\<lparr>balance := getBalance (wallet (resolveTradeAtPrice env trade cp))\<rparr>)
       (closedPosition env trade cp)"
  by (simp add: resolveTradeAtPrice_def Let_def notifyAgent_def notifyRunner_def closePosition_def
      settleWallet_def closedPosition_def tradeToPosition_def)

lemma closedPosition_sel [simp]:
  "status (closedPosition env trade cp) = ''closed''"
  "close_reason (closedPosition env trade cp) = closeReasonOf trade cp"
  "pnl (closedPosition env trade cp) = Some (tradePnl trade cp)"
  "close_quote (closedPosition env trade cp) = cp"
  "pos_id (closedPosition env trade cp) = trade_id trade"
  by (simp_all add: closedPosition_def tradeToPosition_def)

lemma onPositionChanged_closed:
  "status pos = ''closed'' \<Longrightarrow>
   closedCount (onPositionChanged s pos) = closedCount s + 1
   \<and> last (recentClosed (onPositionChanged s pos)) = pos
   \<and> winCount (onPositionChanged s pos) = (if close_reason pos = ''win'' then winCount s + 1 else winCount s)
   \<and> lossCount (onPositionChanged s pos) = (if close_reason pos = ''win'' then lossCount s else lossCount s + 1)"
  by (simp add: onPositionChanged_def Let_def last_pushCapped maxRecentClosed_def)

lemma resolve_closedCount:
  "closedCount (state (resolveTradeAtPrice env trade cp)) = closedCount (state env) + 1"
  by (simp add: resolve_state onPositionChanged_closed)

lemma resolve_recent:
  "last (recentClosed (state (resolveTradeAtPrice env trade cp))) = closedPosition env trade cp"
  by (simp add: resolve_state onPositionChanged_closed)

lemma resolve_resolved:
  "resolved (resolveTradeAtPrice env trade cp) =
     (if tradeResolvedCallback env then
        resolved env @ [\<lparr>r_trade = trade, r_result = closeReasonOf trade cp,
                         r_pnl = tradePnl trade cp, r_closePrice = cp,
                         r_walletAfter = w_balance (wallet (resolveTradeAtPrice env trade cp))\<rparr>]
      else resolved env)"
  by (simp add: resolveTradeAtPrice_def Let_def notifyAgent_def notifyRunner_def closePosition_def
      settleWallet_def closeReasonOf_def getBalance_def)

lemma tie_outcome [simp]:
  "isTie trade (openQuote trade)" "\<not> isWin trade (openQuote trade)"
  "tradePnl trade (openQuote trade) = 0" "closeReasonOf trade (openQuote trade) = ''tie''"
  by (simp_all add: isTie_def isWin_def tradePnl_def closeReasonOf_def)

section \<open>Settlement of a tie\<close>


lemma sample_trade_placed:
  "executeTrade sampleEnv (samplePayload Call)
     = Inr (emitOpen (placeTrade sampleEnv (samplePayload Call)) (samplePayload Call)
              (nextPositionId sampleEnv) (getBalance (wallet sampleEnv)))"
  by (simp add: executeTrade_def canAfford_def sampleEnv_def samplePayload_def
      BacktestEnvironment_new_def Wallet_new_def)


section \<open>A tie in the environment state\<close>

text \<open>
  Claim C4 says that a closed position with close reason \<^verbatim>\<open>"tie"\<close> leaves both
  \<open>winCount\<close> and \<open>lossCount\<close> unchanged. \<open>onPositionChanged\<close> tests only for
  \<^verbatim>\<open>"win"\<close>; every other close reason takes the loss branch. On the tie position
  below, processed in a fresh state, \<open>lossCount\<close> goes from 0 to 1 (and the streak to -1).
\<close>

theorem tie_counted_as_loss:
  "lossCount (onPositionChanged EnvironmentState_new tiePosition) = 1
   \<and> lossCount EnvironmentState_new = 0
   \<and> winCount (onPositionChanged EnvironmentState_new tiePosition) = 0
   \<and> closedCount (onPositionChanged EnvironmentState_new tiePosition) = 1
   \<and> streak (onPositionChanged EnvironmentState_new tiePosition) = - 1"
  by (simp add: onPositionChanged_def tiePosition_def EnvironmentState_new_def Let_def)

text \<open>The same through the backtest settlement: every tie raises \<open>lossCount\<close>.\<close>

lemma settled_tie_raises_lossCount:
  "lossCount (state (resolveTradeAtPrice env trade (openQuote trade))) = lossCount (state env) + 1"
  by (simp add: resolve_state onPositionChanged_closed)

section \<open>The winning call of the specification\<close>

text \<open>
  Claim C5. A call trade with stake 20 and profit percent 85, opened at 1.1000 and closed
  at 1.1010, is a win with pnl 17; the closed position carries close reason
  \<^verbatim>\<open>"win"\<close> and pnl 17, and the settlement raises the wallet balance by 37.
\<close>

theorem winning_call_pays_37:
  "isWin (winningCall t) (1101 / 1000)
   \<and> closeReasonOf (winningCall t) (1101 / 1000) = ''win''
   \<and> tradePnl (winningCall t) (1101 / 1000) = 17
   \<and> close_reason (last (recentClosed (state (resolveTradeAtPrice env (winningCall t) (1101 / 1000))))) = ''win''
   \<and> pnl (last (recentClosed (state (resolveTradeAtPrice env (winningCall t) (1101 / 1000))))) = Some 17
   \<and> w_balance (wallet (resolveTradeAtPrice env (winningCall t) (1101 / 1000)))
        = w_balance (wallet env) + 37"
proof -
  have w: "isWin (winningCall t) (1101 / 1000)" "\<not> isTie (winningCall t) (1101 / 1000)"
    by (simp_all add: isWin_def isTie_def winningCall_def)
  have p: "tradePnl (winningCall t) (1101 / 1000) = 17"
    using w by (simp add: tradePnl_def) (simp add: winningCall_def)
  have r: "closeReasonOf (winningCall t) (1101 / 1000) = ''win''"
    using w by (simp add: closeReasonOf_def)
  have b: "w_balance (wallet (resolveTradeAtPrice env (winningCall t) (1101 / 1000)))
        = w_balance (wallet env) + 37"
    using w p by (simp add: resolve_wallet) (simp add: winningCall_def)
  show ?thesis using w p r b by (simp add: resolve_recent)
qed

theorem winning_call_pays_37_witness:
  "w_balance (wallet (resolveTradeAtPrice
       (emitOpen (placeTrade sampleEnv (samplePayload Call)) (samplePayload Call)
          (nextPositionId sampleEnv) (getBalance (wallet sampleEnv)))
       (winningCall (newTrade sampleEnv (samplePayload Call))) (1101 / 1000))) = 117"
proof -
  have v: "w_balance (wallet (emitOpen (placeTrade sampleEnv (samplePayload Call)) (samplePayload Call)
                        (nextPositionId sampleEnv) (getBalance (wallet sampleEnv)))) = 80"
    by (simp add: placeTrade_def sampleEnv_def samplePayload_def BacktestEnvironment_new_def
        Wallet_new_def)
  show ?thesis
    using winning_call_pays_37 [of "newTrade sampleEnv (samplePayload Call)"
      "emitOpen (placeTrade sampleEnv (samplePayload Call)) (samplePayload Call)
          (nextPositionId sampleEnv) (getBalance (wallet sampleEnv))"] v
    by simp
qed

section \<open>Event persistence\<close>

lemma emitAll_unset:
  "persistFn b = None \<Longrightarrow>
   persistFn (emitAll b es) = None \<and> persisted (emitAll b es) = persisted b
   \<and> buffer (emitAll b es) = buffer b @ eventsOf (bus_runId b) (timeFn b) es
   \<and> bus_runId (emitAll b es) = bus_runId b \<and> timeFn (emitAll b es) = timeFn b"
  by (induction es arbitrary: b) (simp_all add: emit_def mkEvent_def eventsOf_def Let_def)

lemma emitAll_set:
  "persistFn b = Some fn \<Longrightarrow>
   persistFn (emitAll b es) = Some fn
   \<and> persisted (emitAll b es) = persisted b @ map (Pair fn) (eventsOf (bus_runId b) (timeFn b) es)
   \<and> buffer (emitAll b es) = buffer b"
  by (induction es arbitrary: b) (simp_all add: emit_def mkEvent_def eventsOf_def Let_def)



section \<open>Forced close at the end of the dataset\<close>

text \<open>
  What a call of the runner's recording closure says about the settlement (the trade, the
  close price, the result, the pnl), and the same for a trade settled at a given price.
\<close>

definition settlement :: "ResolvedTrade \<Rightarrow> PendingTrade \<times> number \<times> string \<times> number" where
  "settlement r = (r_trade r, r_closePrice r, r_result r, r_pnl r)"

definition settledAt :: "PendingTrade \<Rightarrow> number \<Rightarrow> PendingTrade \<times> number \<times> string \<times> number" where
  "settledAt t p = (t, p, closeReasonOf t p, tradePnl t p)"

definition sampleTrade :: "nat \<Rightarrow> nat \<Rightarrow> direction \<Rightarrow> number \<Rightarrow> PendingTrade" where
  "sampleTrade i a d q =
     \<lparr>trade_id = i, direction = d, activeId = a, invest = 20, openQuote = q, openTime = 0,
      expirationTime = 60, expirationSize = 60, profitPercent = 85\<rparr>"

definition sampleEnvPending :: "unit BacktestEnvironment" where
  "sampleEnvPending =
     (onTradeResolved sampleEnv)\<lparr>pendingTrades := [sampleTrade 2 76 Call (11 / 10),
                                                    sampleTrade 3 99 Put 4]\<rparr>"

lemma find_app:
  "find P (xs @ ys) = (case find P xs of None \<Rightarrow> find P ys | Some x \<Rightarrow> Some x)"
  by (induction xs) simp_all

lemma forceClosePrice_cong:
  "allCandles e = allCandles env \<Longrightarrow> forceClosePrice e lp t = forceClosePrice env lp t"
  by (simp add: forceClosePrice_def findLastCandleForAsset_def)

lemma force_fold:
  "allCandles e = allCandles env \<Longrightarrow>
   pendingTrades (foldl (\<lambda>e trade. resolveTradeAtPrice e trade (forceClosePrice e lp trade)) e ts)
     = pendingTrades e
   \<and> closedCount (state (foldl (\<lambda>e trade. resolveTradeAtPrice e trade (forceClosePrice e lp trade)) e ts))
     = closedCount (state e) + length ts
   \<and> (tradeResolvedCallback e \<longrightarrow>
       map settlement (resolved (foldl (\<lambda>e trade. resolveTradeAtPrice e trade (forceClosePrice e lp trade)) e ts))
       = map settlement (resolved e) @ map (\<lambda>t. settledAt t (forceClosePrice env lp t)) ts)"
proof (induction ts arbitrary: e)
  case Nil
  then show ?case by simp
next
  case (Cons t ts)
  let ?e1 = "resolveTradeAtPrice e t (forceClosePrice e lp t)"
  have 1: "allCandles ?e1 = allCandles env" using Cons.prems by simp
  have 2: "forceClosePrice e lp t = forceClosePrice env lp t"
    using Cons.prems by (rule forceClosePrice_cong)
  show ?case using Cons.IH [OF 1]
    by (simp add: resolve_closedCount resolve_resolved settlement_def settledAt_def 2)
qed

lemma forceClosePrice_none:
  "\<forall>c\<in>set (allCandles env). c_active_id c \<noteq> activeId t \<Longrightarrow> forceClosePrice env lp t = lp"
  by (simp add: forceClosePrice_def findLastCandleForAsset_def find_None_iff [THEN iffD2])

lemma forceClosePrice_some:
  "allCandles env = pre @ c # post \<Longrightarrow> c_active_id c = activeId t \<Longrightarrow>
   \<forall>d\<in>set post. c_active_id d \<noteq> activeId t \<Longrightarrow> forceClosePrice env lp t = c_close c"
proof -
  assume a: "allCandles env = pre @ c # post" "c_active_id c = activeId t"
    "\<forall>d\<in>set post. c_active_id d \<noteq> activeId t"
  have "find (\<lambda>c. c_active_id c = activeId t) (rev post) = None"
    using a(3) by (simp add: find_None_iff)
  then have "find (\<lambda>c. c_active_id c = activeId t) (rev (pre @ c # post)) = Some c"
    using a(2) by (simp add: find_app)
  then show ?thesis using a(1) by (simp add: forceClosePrice_def findLastCandleForAsset_def)
qed


lemma sampleEnvPending_facts:
  "tradeResolvedCallback sampleEnvPending"
  "resolved sampleEnvPending = []"
  "pendingTrades sampleEnvPending = [sampleTrade 2 76 Call (11 / 10), sampleTrade 3 99 Put 4]"
  "allCandles sampleEnvPending = [sampleCandle 0 (11 / 10)] @ sampleCandle 60 (1101 / 1000) # []"
  by (simp_all add: sampleEnvPending_def sampleEnv_def onTradeResolved_def BacktestEnvironment_new_def)


section \<open>Candle buffers: replace or append\<close>

lemma pushCapped_eq:
  "pushCapped cap buf x = (if length buf < cap then buf @ [x] else tl (buf @ [x]))"
  by (auto simp: pushCapped_def Let_def)

lemma fireUpdate_data [simp]: "sensorData (fireUpdate sm sid x) = sensorData sm"
  by (simp add: fireUpdate_def)

lemma fireUpdate_cap [simp]: "sm_maxBufferSize (fireUpdate sm sid x) = sm_maxBufferSize sm"
  by (simp add: fireUpdate_def)

text \<open>
  Claim C8. In the live sensor manager (\<open>pushCandle\<close>) and in the backtest environment
  (\<open>feedCandle\<close>) alike: when the buffer ends with a candle of the same \<open>from\<close> as the
  arriving candle, that last entry is replaced and the entries before it stay, so the length
  is unchanged; otherwise the candle is pushed at the end of the buffer (and the oldest entry
  is dropped when the push exceeds the capacity, 100 in the backtest). The backtest then
  fires the update callbacks on the environment with that buffer.
\<close>

theorem candle_replace_or_append:
  "(sensorData sm sid = Some (xs @ [CandleItem old]) \<and> c_from old = c_from candle
      \<longrightarrow> sensorData (pushCandle sm sid candle) sid = Some (xs @ [CandleItem candle]))
   \<and> (sensorData sm sid = Some buf \<and> (buf = [] \<or> from_of (last buf) \<noteq> Some (c_from candle))
      \<longrightarrow> sensorData (pushCandle sm sid candle) sid
            = Some (if exceeds (length buf + 1) (sm_maxBufferSize sm)
                    then tl (buf @ [CandleItem candle]) else buf @ [CandleItem candle]))
   \<and> (sensorBuffers env (candleId (c_active_id candle) (c_size candle)) = Some (ys @ [old])
        \<and> c_from old = c_from candle
      \<longrightarrow> feedCandle env candle
            = fireCallbacks (env\<lparr>sensorBuffers := (sensorBuffers env)
                (candleId (c_active_id candle) (c_size candle) \<mapsto> ys @ [candle])\<rparr>))
   \<and> (sensorBuffers env (candleId (c_active_id candle) (c_size candle)) = Some cs
        \<and> (cs = [] \<or> c_from (last cs) \<noteq> c_from candle)
      \<longrightarrow> feedCandle env candle
            = fireCallbacks (env\<lparr>sensorBuffers := (sensorBuffers env)
                (candleId (c_active_id candle) (c_size candle) \<mapsto>
                   (if length cs < 100 then cs @ [candle] else tl cs @ [candle]))\<rparr>))"
proof -
  have a: "sensorData sm sid = Some (xs @ [CandleItem old]) \<and> c_from old = c_from candle
      \<longrightarrow> sensorData (pushCandle sm sid candle) sid = Some (xs @ [CandleItem candle])"
    by (simp add: pushCandle_def)
  have b: "sensorData sm sid = Some buf \<and> (buf = [] \<or> from_of (last buf) \<noteq> Some (c_from candle))
      \<longrightarrow> sensorData (pushCandle sm sid candle) sid
            = Some (if exceeds (length buf + 1) (sm_maxBufferSize sm)
                    then tl (buf @ [CandleItem candle]) else buf @ [CandleItem candle])"
    by (auto simp add: pushCandle_def pushShift_def Let_def)
  have c: "sensorBuffers env (candleId (c_active_id candle) (c_size candle)) = Some (ys @ [old])
        \<and> c_from old = c_from candle
      \<longrightarrow> feedCandle env candle
            = fireCallbacks (env\<lparr>sensorBuffers := (sensorBuffers env)
                (candleId (c_active_id candle) (c_size candle) \<mapsto> ys @ [candle])\<rparr>)"
    by (simp add: feedCandle_def Let_def)
  have d: "sensorBuffers env (candleId (c_active_id candle) (c_size candle)) = Some cs
        \<and> (cs = [] \<or> c_from (last cs) \<noteq> c_from candle)
      \<longrightarrow> feedCandle env candle
            = fireCallbacks (env\<lparr>sensorBuffers := (sensorBuffers env)
                (candleId (c_active_id candle) (c_size candle) \<mapsto>
                   (if length cs < 100 then cs @ [candle] else tl cs @ [candle]))\<rparr>)"
    by (cases cs) (auto simp add: feedCandle_def Let_def pushCapped_eq maxBufferSize_def)
  show ?thesis using a b c d by blast
qed

lemma fireCallbacks_none: "updateCallbacks env = [] \<Longrightarrow> fireCallbacks env = env"
  by (simp add: fireCallbacks_def)

definition sampleLive :: SensorManager where
  "sampleLive = subscribe (SensorManager_new None) sampleSensor"

definition sampleSubscribed :: "unit BacktestEnvironment" where
  "sampleSubscribed = executeSubscribe sampleEnv sampleSensor"

lemma sampleLive_A:
  "sensorData (pushCandle sampleLive (candleId 76 60) (sampleCandle 0 1)) (candleId 76 60)
     = Some ([] @ [CandleItem (sampleCandle 0 1)])"
  "sm_maxBufferSize (pushCandle sampleLive (candleId 76 60) (sampleCandle 0 1)) = Num 100"
  by (simp_all add: sampleLive_def pushCandle_def subscribe_def SensorManager_new_def
      sampleSensor_def pushShift_def)

lemma sampleSubscribed_facts:
  "sensorBuffers sampleSubscribed (candleId 76 60) = Some []"
  "updateCallbacks sampleSubscribed = []"
  by (simp_all add: sampleSubscribed_def executeSubscribe_def sampleEnv_def sampleSensor_def
      BacktestEnvironment_new_def Let_def sliceLast_def sampleCandle_def)

lemma sampleSubscribed_A:
  "sensorBuffers (feedCandle sampleSubscribed (sampleCandle 0 1)) (candleId 76 60)
     = Some ([] @ [sampleCandle 0 1])"
  "updateCallbacks (feedCandle sampleSubscribed (sampleCandle 0 1)) = []"
proof -
  have i: "c_active_id (sampleCandle 0 1) = 76" "c_size (sampleCandle 0 1) = 60"
    by (simp_all add: sampleCandle_def)
  have f: "feedCandle sampleSubscribed (sampleCandle 0 1)
         = sampleSubscribed\<lparr>sensorBuffers := (sensorBuffers sampleSubscribed)
              (candleId 76 60 \<mapsto> [sampleCandle 0 1])\<rparr>"
    by (simp add: feedCandle_def Let_def i sampleSubscribed_facts fireCallbacks_none pushCapped_def
        maxBufferSize_def)
  show "sensorBuffers (feedCandle sampleSubscribed (sampleCandle 0 1)) (candleId 76 60)
     = Some ([] @ [sampleCandle 0 1])"
    by (simp add: f)
  show "updateCallbacks (feedCandle sampleSubscribed (sampleCandle 0 1)) = []"
    by (simp add: f sampleSubscribed_facts)
qed

theorem candle_replace_or_append_witness:
  "sensorData (pushCandle (pushCandle sampleLive (candleId 76 60) (sampleCandle 0 1))
                 (candleId 76 60) (sampleCandle 0 2)) (candleId 76 60)
     = Some [CandleItem (sampleCandle 0 2)]
   \<and> sensorData (pushCandle (pushCandle sampleLive (candleId 76 60) (sampleCandle 0 1))
                 (candleId 76 60) (sampleCandle 60 2)) (candleId 76 60)
     = Some [CandleItem (sampleCandle 0 1), CandleItem (sampleCandle 60 2)]
   \<and> sensorBuffers (feedCandle (feedCandle sampleSubscribed (sampleCandle 0 1)) (sampleCandle 0 2))
       (candleId 76 60) = Some [sampleCandle 0 2]
   \<and> sensorBuffers (feedCandle (feedCandle sampleSubscribed (sampleCandle 0 1)) (sampleCandle 60 2))
       (candleId 76 60) = Some [sampleCandle 0 1, sampleCandle 60 2]"
proof -
  let ?sm = "pushCandle sampleLive (candleId 76 60) (sampleCandle 0 1)"
  let ?env = "feedCandle sampleSubscribed (sampleCandle 0 1)"
  have ids: "c_active_id (sampleCandle 0 2) = 76" "c_size (sampleCandle 0 2) = 60"
    "c_active_id (sampleCandle 60 2) = 76" "c_size (sampleCandle 60 2) = 60"
    "c_from (sampleCandle 0 1) = c_from (sampleCandle 0 2)"
    "c_from (sampleCandle 0 1) \<noteq> c_from (sampleCandle 60 2)"
    by (simp_all add: sampleCandle_def)
  note t1 = candle_replace_or_append [where sm = ?sm and sid = "candleId 76 60" and xs = "[]"
      and old = "sampleCandle 0 1" and candle = "sampleCandle 0 2" and env = ?env and ys = "[]"]
  note t2 = candle_replace_or_append [where sm = ?sm and sid = "candleId 76 60"
      and candle = "sampleCandle 60 2" and buf = "[CandleItem (sampleCandle 0 1)]" and env = ?env
      and cs = "[sampleCandle 0 1]"]
  have a: "sensorData (pushCandle ?sm (candleId 76 60) (sampleCandle 0 2)) (candleId 76 60)
     = Some [CandleItem (sampleCandle 0 2)]"
    using t1 sampleLive_A ids by simp
  have b: "sensorData (pushCandle ?sm (candleId 76 60) (sampleCandle 60 2)) (candleId 76 60)
     = Some [CandleItem (sampleCandle 0 1), CandleItem (sampleCandle 60 2)]"
    using t2 sampleLive_A ids by simp
  have c: "sensorBuffers (feedCandle ?env (sampleCandle 0 2)) (candleId 76 60) = Some [sampleCandle 0 2]"
    using t1 sampleSubscribed_A ids by (simp add: fireCallbacks_none)
  have d: "sensorBuffers (feedCandle ?env (sampleCandle 60 2)) (candleId 76 60)
             = Some [sampleCandle 0 1, sampleCandle 60 2]"
    using t2 sampleSubscribed_A ids by (simp add: fireCallbacks_none)
  show ?thesis using a b c d by simp
qed


section \<open>Buffer capacity\<close>

lemma pushCandle_cap [simp]: "sm_maxBufferSize (pushCandle sm sid c) = sm_maxBufferSize sm"
  by (simp add: pushCandle_def split: option.splits)

lemma pushCandle_fresh:
  "sensorData sm sid = Some (map CandleItem bs) \<Longrightarrow> bs = [] \<or> c_from (last bs) \<noteq> c_from c \<Longrightarrow>
   sensorData (pushCandle sm sid c) sid
     = Some (pushShift (sm_maxBufferSize sm) (map CandleItem bs) (CandleItem c))"
  by (auto simp add: pushCandle_def last_map)

lemma adj_step:
  "distinct_adj (map c_from (bs @ c # cs)) \<Longrightarrow> bs = [] \<or> c_from (last bs) \<noteq> c_from c"
  by (cases bs rule: rev_cases) (auto simp: distinct_adj_append_iff)

lemma pushCandles_Obj:
  "sm_maxBufferSize sm = Obj \<Longrightarrow> sensorData sm sid = Some (map CandleItem bs) \<Longrightarrow>
   distinct_adj (map c_from (bs @ cs)) \<Longrightarrow>
   sensorData (pushCandles sm sid cs) sid = Some (map CandleItem (bs @ cs))"
proof (induction cs arbitrary: sm bs)
  case Nil
  then show ?case by (simp add: pushCandles_def)
next
  case (Cons c cs)
  have f: "bs = [] \<or> c_from (last bs) \<noteq> c_from c" using Cons.prems(3) by (rule adj_step)
  have 1: "sm_maxBufferSize (pushCandle sm sid c) = Obj" using Cons.prems(1) by simp
  have 2: "sensorData (pushCandle sm sid c) sid = Some (map CandleItem (bs @ [c]))"
    using pushCandle_fresh [OF Cons.prems(2) f] Cons.prems(1) by (simp add: pushShift_def)
  have 3: "distinct_adj (map c_from ((bs @ [c]) @ cs))" using Cons.prems(3) by simp
  from Cons.IH [OF 1 2 3] show ?case by (simp add: pushCandles_def)
qed

lemma pushShift_sliceLast:
  "pushShift (Num cap) (map f (sliceLast cap bs)) (f c) = map f (sliceLast cap (bs @ [c]))"
proof (cases "length bs < cap")
  case True
  then show ?thesis by (simp add: pushShift_def sliceLast_def Let_def)
next
  case False
  let ?k = "length bs - cap"
  have k: "Suc (length bs) - cap = Suc ?k" using False by simp
  have "sliceLast cap (bs @ [c]) = drop (Suc ?k) (bs @ [c])" by (simp add: sliceLast_def k)
  also have "\<dots> = tl (drop ?k (bs @ [c]))" by (simp only: drop_Suc tl_drop)
  also have "\<dots> = tl (drop ?k bs @ [c])" by simp
  finally have r: "map f (sliceLast cap (bs @ [c])) = tl (map f (drop ?k bs) @ [f c])"
    by (simp add: map_tl)
  have "length (map f (sliceLast cap bs)) = cap" using False by (simp add: sliceLast_def)
  then have "pushShift (Num cap) (map f (sliceLast cap bs)) (f c)
               = tl (map f (sliceLast cap bs) @ [f c])"
    by (simp add: pushShift_def Let_def)
  then show ?thesis using r by (simp add: sliceLast_def)
qed

lemma pushCandles_Num:
  "sm_maxBufferSize sm = Num cap \<Longrightarrow> sensorData sm sid = Some (map CandleItem (sliceLast cap bs)) \<Longrightarrow>
   distinct_adj (map c_from (bs @ cs)) \<Longrightarrow>
   sensorData (pushCandles sm sid cs) sid = Some (map CandleItem (sliceLast cap (bs @ cs)))"
proof (induction cs arbitrary: sm bs)
  case Nil
  then show ?case by (simp add: pushCandles_def)
next
  case (Cons c cs)
  have f0: "bs = [] \<or> c_from (last bs) \<noteq> c_from c" using Cons.prems(3) by (rule adj_step)
  have f: "sliceLast cap bs = [] \<or> c_from (last (sliceLast cap bs)) \<noteq> c_from c"
    using f0 by (auto simp: sliceLast_def)
  have 1: "sm_maxBufferSize (pushCandle sm sid c) = Num cap" using Cons.prems(1) by simp
  have 2: "sensorData (pushCandle sm sid c) sid = Some (map CandleItem (sliceLast cap (bs @ [c])))"
    using pushCandle_fresh [OF Cons.prems(2) f] Cons.prems(1) by (simp add: pushShift_sliceLast)
  have 3: "distinct_adj (map c_from ((bs @ [c]) @ cs))" using Cons.prems(3) by simp
  from Cons.IH [OF 1 2 3] show ?case by (simp add: pushCandles_def)
qed

definition candles150 :: "Candle list" where
  "candles150 = map (\<lambda>n. sampleCandle (of_nat (60 * n)) 1) [0..<150]"

lemma candles150_adj: "distinct_adj (map c_from ([] @ candles150))"
  by (simp add: distinct_adj_conv_nth candles150_def sampleCandle_def)

text \<open>
  With a numeric capacity the buffer is bounded and keeps the newest entries: a manager built
  with the default capacity holds the last 100 of 150 candles with distinct period starts,
  in arrival order.
\<close>

lemma default_capacity_keeps_last_100:
  "getLatest (pushCandles (subscribe (SensorManager_new None) sampleSensor) (candleId 76 60) candles150)
     (candleId 76 60) = map CandleItem (drop 50 candles150)
   \<and> length (drop 50 candles150) = 100"
proof -
  let ?sm = "subscribe (SensorManager_new None) sampleSensor"
  have 1: "sm_maxBufferSize ?sm = Num 100"
    by (simp add: subscribe_def SensorManager_new_def)
  have 2: "sensorData ?sm (candleId 76 60) = Some (map CandleItem (sliceLast 100 []))"
    by (simp add: subscribe_def SensorManager_new_def sampleSensor_def sliceLast_def)
  have l: "length candles150 = 150" by (simp add: candles150_def)
  show ?thesis using pushCandles_Num [OF 1 2 candles150_adj] l
    by (simp add: getLatest_def sliceLast_def)
qed

lemma pushData_bounded:
  "sm_maxBufferSize sm = Num cap \<Longrightarrow> sensorData sm sid = Some buf \<Longrightarrow> length buf \<le> cap \<Longrightarrow>
   \<exists>buf'. sensorData (pushData sm sid x) sid = Some buf' \<and> length buf' \<le> cap
          \<and> sm_maxBufferSize (pushData sm sid x) = Num cap"
  by (auto simp add: pushData_def pushShift_def Let_def)

lemma pushCandle_bounded:
  "sm_maxBufferSize sm = Num cap \<Longrightarrow> sensorData sm sid = Some buf \<Longrightarrow> length buf \<le> cap \<Longrightarrow>
   \<exists>buf'. sensorData (pushCandle sm sid c) sid = Some buf' \<and> length buf' \<le> cap"
  by (auto simp add: pushCandle_def pushShift_def Let_def)


text \<open>
  Claim C7 says that no sensor buffer ever holds more items than the configured capacity
  (100 by default) and that 150 distinct candles leave the last 100. The lemmas above show
  this for every manager whose capacity is a number. The live environment, however, builds
  its manager with the account facade in the position of the capacity, so the overflow test
  is never true: fed the same 150 candles, the buffer of a sensor of the live environment
  holds all 150.
\<close>

theorem live_buffer_unbounded:
  "getLatest (pushCandles (subscribe TradingEnvironment_sensors sampleSensor) (candleId 76 60) candles150)
     (candleId 76 60) = map CandleItem candles150
   \<and> length candles150 = 150"
proof -
  let ?sm = "subscribe TradingEnvironment_sensors sampleSensor"
  have 1: "sm_maxBufferSize ?sm = Obj"
    by (simp add: subscribe_def TradingEnvironment_sensors_def SensorManager_new_def)
  have 2: "sensorData ?sm (candleId 76 60) = Some (map CandleItem [])"
    by (simp add: subscribe_def TradingEnvironment_sensors_def SensorManager_new_def sampleSensor_def)
  have l: "length candles150 = 150" by (simp add: candles150_def)
  show ?thesis using pushCandles_Obj [OF 1 2 candles150_adj] l
    by (simp add: getLatest_def)
qed


section \<open>Batches of actions\<close>

text \<open>
  The events a bus has taken so far, on the side that currently receives them (the buffer
  before \<open>setPersist\<close>, the persistence function after); the action events among them, as
  type and payload; and the event the loop emits for one action and its outcome.
\<close>

definition emitted :: "EventBus \<Rightarrow> TradingEvent list" where
  "emitted b = (case persistFn b of None \<Rightarrow> buffer b | Some fn \<Rightarrow> map snd (persisted b))"

definition isActionEvent :: "TradingEvent \<Rightarrow> bool" where
  "isActionEvent e = (ev_type e = ActionExecuted \<or> ev_type e = ActionFailed)"

definition actionEvents :: "EventBus option \<Rightarrow> (EventType \<times> EventPayload) list" where
  "actionEvents bus =
     (case bus of
        None \<Rightarrow> []
      | Some b \<Rightarrow> map (\<lambda>e. (ev_type e, ev_payload e)) (filter isActionEvent (emitted b)))"

definition actionEvent :: "Action \<Rightarrow> Error + ActionValue \<Rightarrow> EventType \<times> EventPayload" where
  "actionEvent a r =
     (case r of
        Inr v \<Rightarrow> (ActionExecuted, ActionExecutedP (action_type a) a)
      | Inl err \<Rightarrow> (ActionFailed, ActionFailedP (action_type a) a err))"

lemma loop_results_prefix:
  "fst (executeActionsLoop exec emitE i acts rs env)
     = rs @ fst (executeActionsLoop exec emitE i acts [] env)"
proof (induction acts arbitrary: i rs env)
  case Nil
  then show ?case by simp
next
  case (Cons a acts)
  show ?case
  proof (cases "exec env a")
    case (Pair r env1)
    show ?thesis
    proof (cases r)
      case (Inl err)
      with Pair show ?thesis
        using Cons.IH [of "i + 1" "rs @ [\<lparr>actionIndex = i, ar_type = action_type a, outcome = Inl err\<rparr>]"]
          Cons.IH [of "i + 1" "[\<lparr>actionIndex = i, ar_type = action_type a, outcome = Inl err\<rparr>]"]
        by simp
    next
      case (Inr v)
      with Pair show ?thesis
        using Cons.IH [of "i + 1" "rs @ [\<lparr>actionIndex = i, ar_type = action_type a, outcome = Inr v\<rparr>]"]
          Cons.IH [of "i + 1" "[\<lparr>actionIndex = i, ar_type = action_type a, outcome = Inr v\<rparr>]"]
        by simp
    qed
  qed
qed

lemma loop_env_indep:
  "snd (executeActionsLoop exec emitE i acts rs env)
     = snd (executeActionsLoop exec emitE 0 acts [] env)"
proof (induction acts arbitrary: i rs env)
  case Nil
  then show ?case by simp
next
  case (Cons a acts)
  show ?case
  proof (cases "exec env a")
    case (Pair r env1)
    show ?thesis
    proof (cases r)
      case (Inl err)
      with Pair show ?thesis
        using Cons.IH [of "i + 1" "rs @ [\<lparr>actionIndex = i, ar_type = action_type a, outcome = Inl err\<rparr>]"]
          Cons.IH [of "0 + 1" "[] @ [\<lparr>actionIndex = 0, ar_type = action_type a, outcome = Inl err\<rparr>]"]
        by simp
    next
      case (Inr v)
      with Pair show ?thesis
        using Cons.IH [of "i + 1" "rs @ [\<lparr>actionIndex = i, ar_type = action_type a, outcome = Inr v\<rparr>]"]
          Cons.IH [of "0 + 1" "[] @ [\<lparr>actionIndex = 0, ar_type = action_type a, outcome = Inr v\<rparr>]"]
        by simp
    qed
  qed
qed

text \<open>One iteration, in a form that does not split on the outcome.\<close>

definition afterAction ::
  "('e \<Rightarrow> Action \<Rightarrow> (Error + ActionValue) \<times> 'e) \<Rightarrow> ('e \<Rightarrow> EventType \<Rightarrow> EventPayload \<Rightarrow> 'e)
     \<Rightarrow> 'e \<Rightarrow> Action \<Rightarrow> 'e" where
  "afterAction exec emitE env a =
     emitE (snd (exec env a)) (fst (actionEvent a (fst (exec env a))))
       (snd (actionEvent a (fst (exec env a))))"

lemma loop_Cons:
  "executeActionsLoop exec emitE i (a # acts) rs env
     = executeActionsLoop exec emitE (i + 1) acts
         (rs @ [\<lparr>actionIndex = i, ar_type = action_type a, outcome = fst (exec env a)\<rparr>])
         (afterAction exec emitE env a)"
  by (cases "exec env a"; cases "fst (exec env a)") (simp_all add: afterAction_def actionEvent_def)

declare executeActionsLoop.simps(2) [simp del]

lemma loop_Cons_fst:
  "fst (executeActionsLoop exec emitE i (a # acts) [] env)
     = \<lparr>actionIndex = i, ar_type = action_type a, outcome = fst (exec env a)\<rparr>
       # fst (executeActionsLoop exec emitE (i + 1) acts [] (afterAction exec emitE env a))"
  by (simp only: loop_Cons append_Nil) (subst loop_results_prefix, simp)

lemma loop_Cons_snd:
  "snd (executeActionsLoop exec emitE i (a # acts) rs env)
     = snd (executeActionsLoop exec emitE 0 acts [] (afterAction exec emitE env a))"
  by (simp only: loop_Cons) (subst loop_env_indep, simp)

lemma loop_length:
  "length (fst (executeActionsLoop exec emitE i acts [] env)) = length acts"
  by (induction acts arbitrary: i env) (simp_all add: loop_Cons_fst)

lemma loop_nth:
  "k < length acts \<Longrightarrow>
   fst (executeActionsLoop exec emitE i acts [] env) ! k
     = \<lparr>actionIndex = i + k, ar_type = action_type (acts ! k),
        outcome = fst (exec (snd (executeActionsLoop exec emitE 0 (take k acts) [] env)) (acts ! k))\<rparr>"
proof (induction acts arbitrary: i env k)
  case Nil
  then show ?case by simp
next
  case (Cons a acts)
  show ?case
  proof (cases k)
    case 0
    then show ?thesis by (simp add: loop_Cons_fst)
  next
    case (Suc k')
    then have lt: "k' < length acts" using Cons.prems by simp
    show ?thesis using Cons.IH [OF lt, of "i + 1" "afterAction exec emitE env a"] Suc
      by (simp add: loop_Cons_fst loop_Cons_snd)
  qed
qed

lemma loop_events:
  assumes inv_exec: "\<And>e a. I e \<Longrightarrow> I (snd (exec e a))"
    and inv_emit: "\<And>e ty p. I e \<Longrightarrow> I (emitE e ty p)"
    and ev_exec: "\<And>e a. I e \<Longrightarrow> aev (snd (exec e a)) = aev e"
    and ev_emit: "\<And>e a r. I e \<Longrightarrow>
        aev (emitE e (fst (actionEvent a r)) (snd (actionEvent a r))) = aev e @ [actionEvent a r]"
  shows "I env \<Longrightarrow>
    aev (snd (executeActionsLoop exec emitE i acts rs env))
      = aev env @ map (\<lambda>(a, r). actionEvent a (outcome r))
                    (zip acts (fst (executeActionsLoop exec emitE i acts [] env)))"
proof (induction acts arbitrary: i rs env)
  case Nil
  then show ?case by simp
next
  case (Cons a acts)
  let ?e1 = "afterAction exec emitE env a"
  have i1: "I ?e1" using Cons.prems by (simp add: afterAction_def inv_exec inv_emit)
  have e1: "aev ?e1 = aev env @ [actionEvent a (fst (exec env a))]"
    using Cons.prems by (simp add: afterAction_def inv_exec ev_emit ev_exec)
  have l: "snd (executeActionsLoop exec emitE i (a # acts) rs env)
          = snd (executeActionsLoop exec emitE (i + 1) acts [] ?e1)"
    by (simp add: loop_Cons_snd) (subst loop_env_indep, simp)
  show ?case using Cons.IH [OF i1, of "i + 1" "[]"]
    by (simp add: l loop_Cons_fst e1)
qed

lemma emitted_emit: "emitted (emit b ty p) = emitted b @ [mkEvent b ty p]"
  by (cases "persistFn b") (simp_all add: emitted_def emit_def Let_def)

lemma actionEvents_emit:
  "actionEvents (Some (emit b ty p))
     = actionEvents (Some b) @ (if ty = ActionExecuted \<or> ty = ActionFailed then [(ty, p)] else [])"
  by (simp add: actionEvents_def emitted_emit isActionEvent_def mkEvent_def)

lemma actionEvent_type:
  "fst (actionEvent a r) = ActionExecuted \<or> fst (actionEvent a r) = ActionFailed"
  by (cases r) (simp_all add: actionEvent_def)

lemma eventBus_emitEvent:
  "eventBus (emitEvent env ty p) = map_option (\<lambda>b. emit b ty p) (eventBus env)"
  by (simp add: emitEvent_alt)

lemma actionEvents_emitEvent_other:
  "ty \<noteq> ActionExecuted \<Longrightarrow> ty \<noteq> ActionFailed \<Longrightarrow>
   actionEvents (eventBus (emitEvent env ty p)) = actionEvents (eventBus env)"
  by (cases "eventBus env") (simp_all add: eventBus_emitEvent actionEvents_emit)

lemma actionEvents_emitEvent_action:
  "eventBus env \<noteq> None \<Longrightarrow>
   actionEvents (eventBus (emitEvent env (fst (actionEvent a r)) (snd (actionEvent a r))))
     = actionEvents (eventBus env) @ [actionEvent a r]"
  using actionEvent_type [of a r]
  by (cases "eventBus env") (auto simp add: eventBus_emitEvent actionEvents_emit)

lemma hasBus_emitEvent: "eventBus env \<noteq> None \<Longrightarrow> eventBus (emitEvent env ty p) \<noteq> None"
  by (simp add: eventBus_emitEvent)

lemma emitOpen_bus:
  "(eventBus env \<noteq> None \<longrightarrow> eventBus (emitOpen env payload i b) \<noteq> None)
   \<and> actionEvents (eventBus (emitOpen env payload i b)) = actionEvents (eventBus env)"
  by (simp add: emitOpen_def actionEvents_emitEvent_other hasBus_emitEvent)

lemma placeTrade_bus [simp]: "eventBus (placeTrade env payload) = eventBus env"
  by (simp add: placeTrade_def)

lemma executeTrade_bus:
  "executeTrade env payload = Inr env1 \<Longrightarrow>
   (eventBus env \<noteq> None \<longrightarrow> eventBus env1 \<noteq> None)
   \<and> actionEvents (eventBus env1) = actionEvents (eventBus env)"
  using emitOpen_bus [of "placeTrade env payload" payload "nextPositionId env" "getBalance (wallet env)"]
  by (auto simp add: executeTrade_def split: if_splits)

lemma executeAction_bus:
  "(eventBus env \<noteq> None \<longrightarrow> eventBus (snd (executeAction env a)) \<noteq> None)
   \<and> actionEvents (eventBus (snd (executeAction env a))) = actionEvents (eventBus env)"
proof (cases a)
  case (Trade payload)
  then show ?thesis using executeTrade_bus [of env payload]
    by (cases "executeTrade env payload") simp_all
next
  case (Subscribe sensor)
  then show ?thesis by (simp add: executeSubscribe_def Let_def)
next
  case (Unsubscribe sid)
  then show ?thesis by (simp add: executeUnsubscribe_def)
next
  case (Query q)
  then show ?thesis by simp
next
  case (Unknown t)
  then show ?thesis by simp
qed

lemma te_actionEvents_emit:
  "te_eventBus env \<noteq> None \<Longrightarrow>
   actionEvents (te_eventBus (te_emitEvent env (fst (actionEvent a r)) (snd (actionEvent a r))))
     = actionEvents (te_eventBus env) @ [actionEvent a r]"
  using actionEvent_type [of a r]
  by (cases "te_eventBus env") (auto simp add: te_emitEvent_def actionEvents_emit)

lemma te_hasBus_emit: "te_eventBus env \<noteq> None \<Longrightarrow> te_eventBus (te_emitEvent env ty p) \<noteq> None"
  by (cases "te_eventBus env") (simp_all add: te_emitEvent_def)

lemma execute_bus: "te_eventBus (snd (execute venue env a)) = te_eventBus env"
  by (cases a) (simp_all add: callVenue_def)



definition tooLarge :: Action where
  "tooLarge = Trade ((samplePayload Call)\<lparr>price := 1000\<rparr>)"

definition askBalances :: Action where
  "askBalances = Query \<lparr>q_method = ''getBalances'', q_activeId = None, q_size = None,
                        q_from = None, q_to = None\<rparr>"

definition sampleBatch :: "Action list" where
  "sampleBatch = [tooLarge, askBalances]"

definition sampleSlots :: "ActionResult list" where
  "sampleSlots =
     [\<lparr>actionIndex = 0, ar_type = ''trade'', outcome = Inl (CannotAfford 1000 100)\<rparr>,
      \<lparr>actionIndex = 1, ar_type = ''query'', outcome = Inr (Balances [(0, 100, ''USD'')])\<rparr>]"

definition sampleEnvBus :: "unit BacktestEnvironment" where
  "sampleEnvBus = setEventBus sampleEnv (EventBus_new ''bt-demo'' 0)"

lemma sample_values:
  "wallet sampleEnv = Wallet_new 100" "balance (state sampleEnv) = 100" "eventBus sampleEnv = None"
  "wallet sampleEnvBus = Wallet_new 100" "balance (state sampleEnvBus) = 100"
  "eventBus sampleEnvBus = Some (EventBus_new ''bt-demo'' 0)"
  by (simp_all add: sampleEnvBus_def setEventBus_def sampleEnv_def BacktestEnvironment_new_def
      EnvironmentState_new_def getBalance_def Wallet_new_def)

lemma emitEvent_sel [simp]:
  "state (emitEvent env ty p) = state env" "wallet (emitEvent env ty p) = wallet env"
  by (simp_all add: emitEvent_alt)

lemma sample_refused:
  "wallet env = Wallet_new 100 \<Longrightarrow> executeAction env tooLarge = (Inl (CannotAfford 1000 100), env)"
  by (simp add: tooLarge_def executeTrade_def canAfford_def getBalance_def Wallet_new_def
      samplePayload_def)

lemma sample_answered:
  "balance (state env) = 100 \<Longrightarrow>
   executeAction env askBalances = (Inr (Balances [(0, 100, ''USD'')]), env)"
  by (simp add: askBalances_def executeQuery_def)

lemma sample_types: "action_type tooLarge = ''trade''" "action_type askBalances = ''query''"
  by (simp_all add: tooLarge_def askBalances_def)

lemma sample_slots:
  "wallet env = Wallet_new 100 \<Longrightarrow> balance (state env) = 100 \<Longrightarrow>
   fst (executeActions env sampleBatch) = sampleSlots"
  by (simp add: executeActions_def sampleBatch_def sampleSlots_def loop_Cons_fst afterAction_def
      sample_refused sample_answered sample_types)




section \<open>Replay order\<close>

lemma loop_preserves:
  assumes "\<And>e a. f (snd (exec e a)) = f e" and "\<And>e ty p. f (emitE e ty p) = f e"
  shows "f (snd (executeActionsLoop exec emitE i acts rs env)) = f env"
proof (induction acts arbitrary: i rs env)
  case Nil
  then show ?case by simp
next
  case (Cons a acts)
  show ?case by (simp add: loop_Cons_snd Cons.IH afterAction_def assms)
qed

text \<open>The part of the environment that executing actions leaves alone.\<close>

definition fixedPart ::
  "'s BacktestEnvironment \<Rightarrow>
     (Observation \<times> PendingTrade list) list \<times> 's Agent list \<times> number \<times> 's \<times> Candle list \<times> bool
       \<times> 's Agent option \<times> ResolvedTrade list" where
  "fixedPart env =
     (observed env, updateCallbacks env, currentTime env, agentState env, allCandles env,
      tradeResolvedCallback env, agentRef env, resolved env)"

lemma fixedPart_emitEvent: "fixedPart (emitEvent env ty p) = fixedPart env"
  by (simp add: fixedPart_def emitEvent_alt)

lemma fixedPart_executeAction: "fixedPart (snd (executeAction env a)) = fixedPart env"
proof (cases a)
  case (Trade payload)
  then show ?thesis
    by (simp add: fixedPart_def executeTrade_def placeTrade_def)
next
  case (Subscribe sensor)
  then show ?thesis by (simp add: fixedPart_def executeSubscribe_def Let_def)
next
  case (Unsubscribe sid)
  then show ?thesis by (simp add: fixedPart_def executeUnsubscribe_def)
next
  case (Query q)
  then show ?thesis by simp
next
  case (Unknown t)
  then show ?thesis by simp
qed

lemma fixedPart_executeActions: "fixedPart (snd (executeActions env acts)) = fixedPart env"
  unfolding executeActions_def
  by (rule loop_preserves) (simp_all add: fixedPart_executeAction fixedPart_emitEvent)

lemma executeActions_frame [simp]:
  "observed (snd (executeActions env acts)) = observed env"
  "updateCallbacks (snd (executeActions env acts)) = updateCallbacks env"
  "currentTime (snd (executeActions env acts)) = currentTime env"
  "agentState (snd (executeActions env acts)) = agentState env"
  "allCandles (snd (executeActions env acts)) = allCandles env"
  "tradeResolvedCallback (snd (executeActions env acts)) = tradeResolvedCallback env"
  "agentRef (snd (executeActions env acts)) = agentRef env"
  "resolved (snd (executeActions env acts)) = resolved env"
  using fixedPart_executeActions [of env acts] by (simp_all add: fixedPart_def)

lemma resolveTrade_frame [simp]:
  "pendingTrades (resolveTrade env trade) = pendingTrades env"
  "allCandles (resolveTrade env trade) = allCandles env"
  "tradeResolvedCallback (resolveTrade env trade) = tradeResolvedCallback env"
  "currentTime (resolveTrade env trade) = currentTime env"
  "updateCallbacks (resolveTrade env trade) = updateCallbacks env"
  "agentRef (resolveTrade env trade) = agentRef env"
  "observed (resolveTrade env trade) = observed env"
  by (simp_all add: resolveTrade_def split: option.splits)

lemma fold_resolveTrade_frame [simp]:
  "pendingTrades (foldl resolveTrade env ts) = pendingTrades env"
  "allCandles (foldl resolveTrade env ts) = allCandles env"
  "tradeResolvedCallback (foldl resolveTrade env ts) = tradeResolvedCallback env"
  "currentTime (foldl resolveTrade env ts) = currentTime env"
  "updateCallbacks (foldl resolveTrade env ts) = updateCallbacks env"
  "agentRef (foldl resolveTrade env ts) = agentRef env"
  "observed (foldl resolveTrade env ts) = observed env"
  by (induction ts arbitrary: env) simp_all

lemma checkExpirations_frame [simp]:
  "pendingTrades (checkExpirations env)
     = filter (\<lambda>trade. \<not> expirationTime trade \<le> currentTime env) (pendingTrades env)"
  "allCandles (checkExpirations env) = allCandles env"
  "tradeResolvedCallback (checkExpirations env) = tradeResolvedCallback env"
  "currentTime (checkExpirations env) = currentTime env"
  "updateCallbacks (checkExpirations env) = updateCallbacks env"
  "agentRef (checkExpirations env) = agentRef env"
  "observed (checkExpirations env) = observed env"
  by (simp_all add: checkExpirations_def Let_def)

lemma resolveTrade_resolved:
  "tradeResolvedCallback env \<Longrightarrow>
   map r_trade (resolved (resolveTrade env trade)) = map r_trade (resolved env) @ [trade]"
  by (simp add: resolveTrade_def resolve_resolved split: option.splits)

lemma fold_resolveTrade_resolved:
  "tradeResolvedCallback env \<Longrightarrow>
   map r_trade (resolved (foldl resolveTrade env ts)) = map r_trade (resolved env) @ ts"
  by (induction ts arbitrary: env) (simp_all add: resolveTrade_resolved)

lemma checkExpirations_resolved:
  "tradeResolvedCallback env \<Longrightarrow>
   map r_trade (resolved (checkExpirations env))
     = map r_trade (resolved env)
       @ filter (\<lambda>trade. expirationTime trade \<le> currentTime env) (pendingTrades env)"
  by (simp add: checkExpirations_def Let_def fold_resolveTrade_resolved)

definition dueFree :: "(Observation \<times> PendingTrade list) \<Rightarrow> bool" where
  "dueFree x = (\<forall>t\<in>set (snd x). timestamp (fst x) < expirationTime t)"

lemma observationCycle_frame [simp]:
  "observed (observationCycle env agent) = observed env @ [(getObservation env, pendingTrades env)]"
  "updateCallbacks (observationCycle env agent) = updateCallbacks env"
  "currentTime (observationCycle env agent) = currentTime env"
  by (simp_all add: observationCycle_def Let_def)

lemma fireCallbacks_observed:
  "length (updateCallbacks env) \<le> 1 \<Longrightarrow>
   \<forall>t\<in>set (pendingTrades env). currentTime env < expirationTime t \<Longrightarrow>
   list_all dueFree (observed env) \<Longrightarrow>
   list_all dueFree (observed (fireCallbacks env))
   \<and> updateCallbacks (fireCallbacks env) = updateCallbacks env
   \<and> currentTime (fireCallbacks env) = currentTime env"
proof (cases "updateCallbacks env")
  case Nil
  assume "list_all dueFree (observed env)"
  with Nil show ?thesis by (simp add: fireCallbacks_def)
next
  case (Cons a as)
  assume l: "length (updateCallbacks env) \<le> 1"
    and p: "\<forall>t\<in>set (pendingTrades env). currentTime env < expirationTime t"
    and o: "list_all dueFree (observed env)"
  from l Cons have "as = []" by simp
  with Cons p o show ?thesis
    by (simp add: fireCallbacks_def dueFree_def getObservation_def)
qed

lemma feedCandle_observed:
  assumes "length (updateCallbacks env) \<le> 1"
    and "\<forall>t\<in>set (pendingTrades env). currentTime env < expirationTime t"
    and "list_all dueFree (observed env)"
  shows "list_all dueFree (observed (feedCandle env candle))
   \<and> updateCallbacks (feedCandle env candle) = updateCallbacks env"
proof (cases "sensorBuffers env (candleId (c_active_id candle) (c_size candle))")
  case None
  then show ?thesis using assms by (simp add: feedCandle_def)
next
  case (Some buf)
  let ?sid = "candleId (c_active_id candle) (c_size candle)"
  have k: "\<And>b. list_all dueFree (observed (fireCallbacks (env\<lparr>sensorBuffers := (sensorBuffers env)(?sid \<mapsto> b)\<rparr>)))
     \<and> updateCallbacks (fireCallbacks (env\<lparr>sensorBuffers := (sensorBuffers env)(?sid \<mapsto> b)\<rparr>))
         = updateCallbacks env"
    using fireCallbacks_observed [of "env\<lparr>sensorBuffers := (sensorBuffers env)(?sid \<mapsto> _)\<rparr>"] assms
    by simp
  show ?thesis using Some k by (simp add: feedCandle_def Let_def)
qed

lemma step_observed:
  assumes "length (updateCallbacks env) \<le> 1" and "list_all dueFree (observed env)"
  shows "list_all dueFree (observed (feedCandle (checkExpirations
            (setCurrentTime (setSimulatedTime env (c_from candle)) (c_from candle))) candle))
   \<and> updateCallbacks (feedCandle (checkExpirations
            (setCurrentTime (setSimulatedTime env (c_from candle)) (c_from candle))) candle)
       = updateCallbacks env"
proof -
  let ?e = "checkExpirations (setCurrentTime (setSimulatedTime env (c_from candle)) (c_from candle))"
  have 1: "length (updateCallbacks ?e) \<le> 1" using assms(1)
    by (simp add: setCurrentTime_def setSimulatedTime_def)
  have 2: "\<forall>t\<in>set (pendingTrades ?e). currentTime ?e < expirationTime t" by auto
  have 3: "list_all dueFree (observed ?e)" using assms(2)
    by (simp add: setCurrentTime_def setSimulatedTime_def)
  have 4: "updateCallbacks ?e = updateCallbacks env"
    by (simp add: setCurrentTime_def setSimulatedTime_def)
  show ?thesis using feedCandle_observed [OF 1 2 3] 4 by simp
qed

lemma replay_observed:
  "length (updateCallbacks env) \<le> 1 \<Longrightarrow> list_all dueFree (observed env) \<Longrightarrow>
   list_all dueFree (observed (replay env cs))"
proof (induction cs arbitrary: env)
  case Nil
  then show ?case by simp
next
  case (Cons c cs)
  note s = step_observed [OF Cons.prems, of c]
  show ?case using Cons.prems Cons.IH s by simp
qed

lemma prepare_observed:
  "observed (prepare cfg ext cs assetCfg payout agent s0) = []
   \<and> updateCallbacks (prepare cfg ext cs assetCfg payout agent s0) = [agent]"
  by (simp add: prepare_def Let_def runAgent_def setCurrentTime_def emitEvent_alt onTradeResolved_def
      BacktestEnvironment_new_def)

lemma force_fold_observed:
  "observed (foldl (\<lambda>e trade. resolveTradeAtPrice e trade (forceClosePrice e lp trade)) e ts)
     = observed e"
  by (induction ts arbitrary: e) simp_all

lemma forceCloseAll_observed [simp]: "observed (forceCloseAll env lp) = observed env"
  by (simp add: forceCloseAll_def Let_def force_fold_observed)

lemma finish_observed: "observed (snd (finish cfg ext cs env)) = observed env"
  by (simp add: finish_def Let_def emitEvent_alt)

lemma run_Inr:
  "run cfg db ext agent s0 = Inr (res, env) \<Longrightarrow>
   \<exists>cs assetCfg payout.
     finish cfg ext cs (replay (prepare cfg ext cs assetCfg payout agent s0) cs) = (res, env)"
  by (simp add: run_def Let_def split: sum.splits prod.splits if_splits) blast

lemma run_observed:
  "run cfg db ext agent s0 = Inr (res, env) \<Longrightarrow> list_all dueFree (observed env)"
proof -
  assume r: "run cfg db ext agent s0 = Inr (res, env)"
  from run_Inr [OF r] obtain cs assetCfg payout where
    e: "finish cfg ext cs (replay (prepare cfg ext cs assetCfg payout agent s0) cs) = (res, env)"
    by blast
  then have e': "env = snd (finish cfg ext cs (replay (prepare cfg ext cs assetCfg payout agent s0) cs))"
    by (metis snd_conv)
  have "list_all dueFree (observed (replay (prepare cfg ext cs assetCfg payout agent s0) cs))"
    by (rule replay_observed) (simp_all add: prepare_observed)
  then show ?thesis by (simp add: e' finish_observed)
qed

lemma fold_resolveTrade_closedCount:
  "closedCount (state (foldl resolveTrade env ts)) = closedCount (state env) + length ts"
proof (induction ts arbitrary: env)
  case Nil
  then show ?case by simp
next
  case (Cons t ts)
  have "closedCount (state (resolveTrade env t)) = closedCount (state env) + 1"
    by (simp add: resolveTrade_def resolve_closedCount split: option.splits)
  then show ?case by (simp add: Cons.IH)
qed

lemma checkExpirations_closedCount:
  "closedCount (state (checkExpirations env))
     = closedCount (state env)
       + length (filter (\<lambda>trade. expirationTime trade \<le> currentTime env) (pendingTrades env))"
  by (simp add: checkExpirations_def Let_def fold_resolveTrade_closedCount)


text \<open>Sample runs: a dataset of three candles, an agent that ignores the run id and one that
  reads it.\<close>

definition patientAgent :: "bool Agent" where
  "patientAgent =
     \<lparr>initialize = (\<lambda>s rid obs. (False, [Subscribe sampleSensor])),
      onObservation = (\<lambda>s obs.
         if s then (s, [])
         else (True, [Trade ((samplePayload Call)\<lparr>tp_expirationSize := 90\<rparr>)])),
      onTradeResult = (\<lambda>s pos. s)\<rparr>"

definition runIdAgent :: "(string \<times> bool) Agent" where
  "runIdAgent =
     \<lparr>initialize = (\<lambda>s rid obs. ((rid, False), [Subscribe sampleSensor])),
      onObservation = (\<lambda>s obs.
         if snd s then (s, [])
         else ((fst s, True),
               [Trade ((samplePayload (if last (fst s) = CHR ''a'' then Call else Put))
                         \<lparr>tp_expirationSize := 90\<rparr>)])),
      onTradeResult = (\<lambda>s pos. s)\<rparr>"

definition sampleConfig :: BacktestConfig where
  "sampleConfig =
     \<lparr>agentName = ''demo'', datasetNames = [''eurusd''], initialBalance = 100,
      cfg_payoutPercent = Some 80\<rparr>"

definition sampleRows :: "Candle list" where
  "sampleRows = [sampleCandle 0 (11 / 10), sampleCandle 60 (1101 / 1000), sampleCandle 120 (1102 / 1000)]"

definition sampleDb :: "string \<rightharpoonup> Dataset" where
  "sampleDb = [''eurusd'' \<mapsto> \<lparr>ds_assetConfig = None, ds_rows = sampleRows\<rparr>]"

definition sampleExt :: "string \<Rightarrow> External" where
  "sampleExt r = \<lparr>today = ''20260101'', rand = r, persisterAvailable = True\<rparr>"

definition finalBalanceOf :: "Error + (BacktestResult \<times> 's BacktestEnvironment) \<Rightarrow> number option" where
  "finalBalanceOf r = (case r of Inl e \<Rightarrow> None | Inr x \<Rightarrow> Some (finalBalance (fst x)))"

definition settledOf ::
  "Error + (BacktestResult \<times> 's BacktestEnvironment) \<Rightarrow> (direction \<times> string \<times> number) list" where
  "settledOf r =
     (case r of
        Inl e \<Rightarrow> []
      | Inr x \<Rightarrow> map (\<lambda>t. (direction (r_trade t), r_result t, r_pnl t)) (resolved (snd x)))"

definition observationsOf ::
  "Error + (BacktestResult \<times> 's BacktestEnvironment) \<Rightarrow> (number \<times> number list) list" where
  "observationsOf r =
     (case r of
        Inl e \<Rightarrow> []
      | Inr x \<Rightarrow> map (\<lambda>ob. (timestamp (fst ob), map expirationTime (snd ob))) (observed (snd x)))"





lemma sample_sorted: "sort_key c_from sampleRows = sampleRows"
  by (simp add: sampleRows_def sampleCandle_def)

lemma sample_run:
  "run sampleConfig sampleDb ext agent s0
     = Inr (finish sampleConfig ext sampleRows
              (replay (prepare sampleConfig ext sampleRows None 80 agent s0) sampleRows))"
proof -
  have l: "loadDatasets sampleDb sampleConfig (datasetNames sampleConfig) [] None 80
             = Inr (sampleRows, None, 80)"
    by (simp add: sampleDb_def sampleConfig_def)
  have n: "sampleRows \<noteq> []" by (simp add: sampleRows_def)
  have p: "cfg_payoutPercent sampleConfig = Some 80" by (simp add: sampleConfig_def)
  show ?thesis by (simp add: run_def l n p sample_sorted)
qed

lemma patient_observations:
  "observationsOf (run sampleConfig sampleDb (sampleExt ''xya'') patientAgent False)
     = [(0, []), (60, [90]), (120, [])]"
  by code_simp


section \<open>Determinism of the replay\<close>

definition noBus :: "'s BacktestEnvironment \<Rightarrow> 's BacktestEnvironment" where
  "noBus env = env\<lparr>eventBus := None\<rparr>"

lemma noBus_sel [simp]:
  "state (noBus env) = state env" "wallet (noBus env) = wallet env"
  "pendingTrades (noBus env) = pendingTrades env" "allCandles (noBus env) = allCandles env"
  "currentTime (noBus env) = currentTime env" "updateCallbacks (noBus env) = updateCallbacks env"
  "agentRef (noBus env) = agentRef env" "agentState (noBus env) = agentState env"
  "observed (noBus env) = observed env" "resolved (noBus env) = resolved env"
  "tradeResolvedCallback (noBus env) = tradeResolvedCallback env"
  "sensorBuffers (noBus env) = sensorBuffers env" "subscribedSensors (noBus env) = subscribedSensors env"
  "payoutPercent (noBus env) = payoutPercent env" "nextPositionId (noBus env) = nextPositionId env"
  "eventBus (noBus env) = None"
  by (simp_all add: noBus_def)

lemma noBus_update:
  "noBus (env\<lparr>agentState := s\<rparr>) = (noBus env)\<lparr>agentState := s\<rparr>"
  "noBus (env\<lparr>observed := ob\<rparr>) = (noBus env)\<lparr>observed := ob\<rparr>"
  "noBus (env\<lparr>sensorBuffers := sb\<rparr>) = (noBus env)\<lparr>sensorBuffers := sb\<rparr>"
  "noBus (env\<lparr>subscribedSensors := ss\<rparr>) = (noBus env)\<lparr>subscribedSensors := ss\<rparr>"
  "noBus (env\<lparr>pendingTrades := pt\<rparr>) = (noBus env)\<lparr>pendingTrades := pt\<rparr>"
  "noBus (env\<lparr>agentRef := ar\<rparr>) = (noBus env)\<lparr>agentRef := ar\<rparr>"
  "noBus (env\<lparr>updateCallbacks := uc\<rparr>) = (noBus env)\<lparr>updateCallbacks := uc\<rparr>"
  "noBus (env\<lparr>wallet := w\<rparr>) = (noBus env)\<lparr>wallet := w\<rparr>"
  "noBus (env\<lparr>state := st\<rparr>) = (noBus env)\<lparr>state := st\<rparr>"
  "noBus (env\<lparr>resolved := rs\<rparr>) = (noBus env)\<lparr>resolved := rs\<rparr>"
  "noBus (env\<lparr>nextPositionId := n\<rparr>) = (noBus env)\<lparr>nextPositionId := n\<rparr>"
  "noBus (env\<lparr>currentTime := t\<rparr>) = (noBus env)\<lparr>currentTime := t\<rparr>"
  "noBus (env\<lparr>tradeResolvedCallback := cb\<rparr>) = (noBus env)\<lparr>tradeResolvedCallback := cb\<rparr>"
  by (simp_all add: noBus_def)

lemma noBus_if: "(if c then noBus x else noBus y) = noBus (if c then x else y)"
  by simp

lemma noBus_emitEvent [simp]:
  "noBus (emitEvent env ty p) = noBus env" "emitEvent (noBus env) ty p = noBus env"
  by (simp_all add: noBus_def emitEvent_alt)

lemma noBus_setSimulatedTime [simp]: "noBus (setSimulatedTime env t) = noBus env"
  by (simp add: noBus_def setSimulatedTime_def)

lemma noBus_setCurrentTime: "setCurrentTime (noBus env) t = noBus (setCurrentTime env t)"
  by (simp add: noBus_def setCurrentTime_def)

lemma noBus_newTrade [simp]: "newTrade (noBus env) payload = newTrade env payload"
  by (simp add: newTrade_def getLatestClose_def split: option.splits)

lemma noBus_tradeToPosition [simp]:
  "tradeToPosition (noBus env) trade st ci = tradeToPosition env trade st ci"
  by (simp add: tradeToPosition_def split: option.splits)

lemma noBus_placeTrade: "placeTrade (noBus env) payload = noBus (placeTrade env payload)"
  unfolding placeTrade_def
  by (simp only: noBus_sel noBus_update [symmetric] noBus_newTrade noBus_tradeToPosition)

lemma noBus_emitOpen [simp]:
  "noBus (emitOpen env payload i b) = noBus env"
  by (simp add: emitOpen_def)

lemma emitOpen_noBus [simp]: "emitOpen (noBus env) payload i b = noBus env"
  by (simp add: emitOpen_def)

lemma noBus_idem [simp]: "noBus (noBus env) = noBus env"
  by (simp add: noBus_def)

lemma noBus_executeTrade:
  "executeTrade (noBus env) payload = map_sum id noBus (executeTrade env payload)"
  by (simp add: executeTrade_def noBus_placeTrade)

lemma noBus_executeSubscribe:
  "executeSubscribe (noBus env) sensor = noBus (executeSubscribe env sensor)"
  unfolding executeSubscribe_def Let_def
  by (simp only: noBus_sel noBus_update [symmetric] noBus_if)

lemma noBus_executeUnsubscribe:
  "executeUnsubscribe (noBus env) sid = noBus (executeUnsubscribe env sid)"
  unfolding executeUnsubscribe_def
  by (simp only: noBus_sel noBus_update [symmetric])

lemma noBus_executeQuery [simp]: "executeQuery (noBus env) q = executeQuery env q"
  by (simp add: executeQuery_def)

lemma noBus_executeAction:
  "executeAction (noBus env) a = apsnd noBus (executeAction env a)"
proof (cases a)
  case (Trade payload)
  then show ?thesis by (cases "executeTrade env payload") (simp_all add: noBus_executeTrade)
qed (simp_all add: noBus_executeSubscribe noBus_executeUnsubscribe)

lemma loop_project:
  assumes "\<And>e a. exec (pr e) a = apsnd pr (exec e a)"
    and "\<And>e ty p. emitE (pr e) ty p = pr (emitE e ty p)"
  shows "executeActionsLoop exec emitE i acts rs (pr env)
           = apsnd pr (executeActionsLoop exec emitE i acts rs env)"
proof (induction acts arbitrary: i rs env)
  case Nil
  then show ?case by simp
next
  case (Cons a acts)
  have "afterAction exec emitE (pr env) a = pr (afterAction exec emitE env a)"
    by (simp add: afterAction_def assms)
  then show ?case by (simp add: loop_Cons Cons.IH assms)
qed

lemma noBus_executeActions:
  "executeActions (noBus env) acts = apsnd noBus (executeActions env acts)"
  unfolding executeActions_def
  by (rule loop_project) (simp_all add: noBus_executeAction)

lemma noBus_getObservation [simp]: "getObservation (noBus env) = getObservation env"
  by (simp add: getObservation_def)

lemma noBus_observationCycle:
  "observationCycle (noBus env) agent = noBus (observationCycle env agent)"
  unfolding observationCycle_def Let_def
  by (simp only: noBus_getObservation noBus_sel noBus_update [symmetric] noBus_executeActions
      snd_apsnd noBus_if)

lemma noBus_fold_cycle:
  "foldl observationCycle (noBus env) as = noBus (foldl observationCycle env as)"
  by (induction as arbitrary: env) (simp_all add: noBus_observationCycle)

lemma noBus_fireCallbacks: "fireCallbacks (noBus env) = noBus (fireCallbacks env)"
  by (simp add: fireCallbacks_def noBus_fold_cycle)

lemma noBus_feedCandle: "feedCandle (noBus env) c = noBus (feedCandle env c)"
proof (cases "sensorBuffers env (candleId (c_active_id c) (c_size c))")
  case None
  then show ?thesis by (simp add: feedCandle_def)
next
  case (Some buf)
  have k: "\<And>b. fireCallbacks ((noBus env)\<lparr>sensorBuffers := b\<rparr>)
                 = noBus (fireCallbacks (env\<lparr>sensorBuffers := b\<rparr>))"
    by (simp only: noBus_update [symmetric] noBus_fireCallbacks)
  show ?thesis using Some by (simp add: feedCandle_def Let_def k)
qed

lemma noBus_emitClose [simp]:
  "noBus (emitClose env trade cp) = noBus env" "emitClose (noBus env) trade cp = noBus env"
  by (simp_all add: emitClose_def Let_def getBalance_def)

lemma noBus_resolveTradeAtPrice:
  "resolveTradeAtPrice (noBus env) trade cp = noBus (resolveTradeAtPrice env trade cp)"
proof -
  have 1: "settleWallet (noBus env) trade cp = noBus (settleWallet env trade cp)"
    unfolding settleWallet_def Let_def by (simp only: noBus_sel noBus_update [symmetric])
  have 2: "\<And>e. closedPosition (noBus e) trade cp = closedPosition e trade cp"
    unfolding closedPosition_def by (simp only: noBus_tradeToPosition)
  have 3: "\<And>e pos. closePosition (noBus e) pos = noBus (closePosition e pos)"
    unfolding closePosition_def by (simp only: noBus_sel noBus_update [symmetric])
  have 4: "\<And>e. notifyRunner (noBus e) trade cp = noBus (notifyRunner e trade cp)"
    unfolding notifyRunner_def by (simp only: noBus_sel noBus_update [symmetric])
  have 5: "\<And>e pos. notifyAgent (noBus e) pos = noBus (notifyAgent e pos)"
    unfolding notifyAgent_def by (simp only: noBus_sel noBus_update [symmetric])
  have 6: "\<And>e. emitClose (noBus e) trade cp = noBus (emitClose e trade cp)" by simp
  show ?thesis
    unfolding resolveTradeAtPrice_def Let_def
    by (simp only: 1 2 3 4 5 6)
qed

lemma noBus_resolveTrade: "resolveTrade (noBus env) trade = noBus (resolveTrade env trade)"
  by (simp add: resolveTrade_def findLastCandleForAsset_def noBus_resolveTradeAtPrice
      split: option.splits)

lemma noBus_fold_resolveTrade:
  "foldl resolveTrade (noBus env) ts = noBus (foldl resolveTrade env ts)"
  by (induction ts arbitrary: env) (simp_all add: noBus_resolveTrade)

lemma noBus_checkExpirations: "checkExpirations (noBus env) = noBus (checkExpirations env)"
  unfolding checkExpirations_def Let_def
  by (simp only: noBus_sel noBus_update [symmetric] noBus_fold_resolveTrade)

lemma noBus_forceClosePrice [simp]: "forceClosePrice (noBus env) lp t = forceClosePrice env lp t"
  by (simp add: forceClosePrice_def findLastCandleForAsset_def)

lemma noBus_fold_force:
  "foldl (\<lambda>e trade. resolveTradeAtPrice e trade (forceClosePrice e lp trade)) (noBus env) ts
     = noBus (foldl (\<lambda>e trade. resolveTradeAtPrice e trade (forceClosePrice e lp trade)) env ts)"
  by (induction ts arbitrary: env) (simp_all add: noBus_resolveTradeAtPrice)

lemma noBus_forceCloseAll: "forceCloseAll (noBus env) lp = noBus (forceCloseAll env lp)"
  unfolding forceCloseAll_def Let_def
  by (simp only: noBus_sel noBus_update [symmetric] noBus_fold_force)

lemma setSimulatedTime_noBus: "setSimulatedTime (noBus env) t = noBus env"
  by (simp add: setSimulatedTime_def noBus_def)

lemma noBus_step:
  "feedCandle (checkExpirations (setCurrentTime (setSimulatedTime (noBus env) t) t)) c
     = noBus (feedCandle (checkExpirations (setCurrentTime (setSimulatedTime env t) t)) c)"
proof -
  have "setCurrentTime (setSimulatedTime (noBus env) t) t
          = noBus (setCurrentTime (setSimulatedTime env t) t)"
    by (simp add: setSimulatedTime_noBus noBus_setCurrentTime)
       (simp add: noBus_def setCurrentTime_def setSimulatedTime_def)
  then show ?thesis by (simp only: noBus_checkExpirations noBus_feedCandle)
qed

lemma noBus_replay: "replay (noBus env) cs = noBus (replay env cs)"
proof (induction cs arbitrary: env)
  case Nil
  then show ?case by simp
next
  case (Cons c cs)
  show ?case by (simp add: noBus_step Cons.IH)
qed


lemma noBus_runAgent:
  "runAgent (noBus env) agent rid = noBus (runAgent env agent rid)"
  unfolding runAgent_def Let_def
  by (simp only: noBus_sel noBus_getObservation noBus_update [symmetric] noBus_executeActions
      snd_apsnd)

text \<open>The prepared environment without its bus, as a term that mentions no run id but through
  the agent's \<open>initialize\<close>.\<close>

lemma noBus_prepare:
  "noBus (prepare cfg ext cs assetCfg payout agent s0)
     = (runAgent (setCurrentTime (onTradeResolved
           (BacktestEnvironment_new cs (Wallet_new (initialBalance cfg)) None assetCfg payout s0))
           (c_from (hd cs))) agent (mkRunId cfg ext))
       \<lparr>wallet := onBust (wallet (runAgent (setCurrentTime (onTradeResolved
           (BacktestEnvironment_new cs (Wallet_new (initialBalance cfg)) None assetCfg payout s0))
           (c_from (hd cs))) agent (mkRunId cfg ext)))\<rparr>"
proof -
  let ?bus = "(if persisterAvailable ext
               then setPersist (EventBus_new (mkRunId cfg ext) (c_from (hd cs))) 0
               else EventBus_new (mkRunId cfg ext) (c_from (hd cs)))"
  let ?env0 = "BacktestEnvironment_new cs (Wallet_new (initialBalance cfg)) (Some ?bus) assetCfg payout s0"
  let ?base = "BacktestEnvironment_new cs (Wallet_new (initialBalance cfg)) None assetCfg payout s0"
  let ?env3 = "setCurrentTime (emitEvent (onTradeResolved ?env0) RunStarted
                 (RunStartedP (''backtest:'' @ agentName cfg) (agentName cfg))) (c_from (hd cs))"
  have 0: "noBus ?env0 = ?base" by (simp add: noBus_def BacktestEnvironment_new_def)
  have 1: "noBus (onTradeResolved ?env0) = onTradeResolved ?base"
    unfolding onTradeResolved_def by (simp only: noBus_update 0)
  have 3: "noBus ?env3 = setCurrentTime (onTradeResolved ?base) (c_from (hd cs))"
    by (simp only: noBus_setCurrentTime [symmetric] noBus_emitEvent 1)
  have 4: "noBus (runAgent ?env3 agent (mkRunId cfg ext))
             = runAgent (setCurrentTime (onTradeResolved ?base) (c_from (hd cs))) agent (mkRunId cfg ext)"
    by (simp only: noBus_runAgent [symmetric] 3)
  have p: "prepare cfg ext cs assetCfg payout agent s0
             = (runAgent ?env3 agent (mkRunId cfg ext))
                 \<lparr>wallet := onBust (wallet (runAgent ?env3 agent (mkRunId cfg ext)))\<rparr>"
    by (simp add: prepare_def Let_def)
  have w: "wallet (runAgent ?env3 agent (mkRunId cfg ext))
             = wallet (noBus (runAgent ?env3 agent (mkRunId cfg ext)))"
    by simp
  show ?thesis
    by (simp only: p noBus_update) (simp only: w 4)
qed

lemma runAgent_runId:
  "\<forall>s r1 r2 obs. initialize agent s r1 obs = initialize agent s r2 obs \<Longrightarrow>
   runAgent env agent rid1 = runAgent env agent rid2"
proof -
  assume a: "\<forall>s r1 r2 obs. initialize agent s r1 obs = initialize agent s r2 obs"
  have e: "\<And>s obs. initialize agent s rid1 obs = initialize agent s rid2 obs"
    using a by blast
  show ?thesis by (simp only: runAgent_def Let_def e)
qed

lemma prepare_ext:
  assumes "\<forall>s r1 r2 obs. initialize agent s r1 obs = initialize agent s r2 obs"
  shows "noBus (prepare cfg ext1 cs assetCfg payout agent s0)
           = noBus (prepare cfg ext2 cs assetCfg payout agent s0)"
  by (simp only: noBus_prepare runAgent_runId [OF assms, of _ "mkRunId cfg ext1" "mkRunId cfg ext2"])

text \<open>What a run leaves, apart from the run id and the events: the calls of the recording
  closure, the wallet, the environment state, the trades still pending, the observations
  handed to the agent, and the result record with its run id blanked.\<close>

definition outcomeOf ::
  "BacktestResult \<times> 's BacktestEnvironment \<Rightarrow>
     ResolvedTrade list \<times> Wallet \<times> EnvironmentState \<times> PendingTrade list
       \<times> (Observation \<times> PendingTrade list) list \<times> BacktestResult" where
  "outcomeOf x =
     (resolved (snd x), wallet (snd x), state (snd x), pendingTrades (snd x), observed (snd x),
      (fst x)\<lparr>res_runId := []\<rparr>)"

lemma finish_outcome:
  "noBus e1 = noBus e2 \<Longrightarrow> outcomeOf (finish cfg ext1 cs e1) = outcomeOf (finish cfg ext2 cs e2)"
proof -
  assume h: "noBus e1 = noBus e2"
  have f: "noBus (forceCloseAll e1 (c_close (last cs))) = noBus (forceCloseAll e2 (c_close (last cs)))"
    by (simp only: noBus_forceCloseAll [symmetric] h)
  have sel: "\<And>e. resolved e = resolved (noBus e)" "\<And>e. wallet e = wallet (noBus e)"
    "\<And>e. state e = state (noBus e)" "\<And>e. pendingTrades e = pendingTrades (noBus e)"
    "\<And>e. observed e = observed (noBus e)"
    by simp_all
  have r: "resolved (forceCloseAll e1 (c_close (last cs))) = resolved (forceCloseAll e2 (c_close (last cs)))"
    "wallet (forceCloseAll e1 (c_close (last cs))) = wallet (forceCloseAll e2 (c_close (last cs)))"
    "state (forceCloseAll e1 (c_close (last cs))) = state (forceCloseAll e2 (c_close (last cs)))"
    "pendingTrades (forceCloseAll e1 (c_close (last cs))) = pendingTrades (forceCloseAll e2 (c_close (last cs)))"
    "observed (forceCloseAll e1 (c_close (last cs))) = observed (forceCloseAll e2 (c_close (last cs)))"
    using f sel by metis+
  have o: "observed e1 = observed e2" using h sel(5) by metis
  show ?thesis
    by (simp add: outcomeOf_def finish_def Let_def emitEvent_alt r o)
qed


text \<open>
  Claim C2, as amended. For an agent whose \<open>initialize\<close> does not depend on the run id of
  its context, two runs on the same configuration, datasets and agent, under any two
  values of what \<open>run\<close> reads from outside (date, random suffix, availability of the
  persister), either fail with the same error or leave the same outcome: the same settled
  trades in the same order (each with its trade, close price, result, pnl and wallet
  balance), the same wallet, environment state, pending trades and observations, and the
  same result record up to its run id.
\<close>

theorem replay_outcome_independent_of_run_id:
  assumes "\<forall>s r1 r2 obs. initialize agent s r1 obs = initialize agent s r2 obs"
  shows "map_sum id outcomeOf (run cfg db ext1 agent s0)
           = map_sum id outcomeOf (run cfg db ext2 agent s0)"
proof -
  have k: "\<And>cs assetCfg payout.
      outcomeOf (finish cfg ext1 cs (replay (prepare cfg ext1 cs assetCfg payout agent s0) cs))
        = outcomeOf (finish cfg ext2 cs (replay (prepare cfg ext2 cs assetCfg payout agent s0) cs))"
  proof -
    fix cs assetCfg payout
    have "noBus (replay (prepare cfg ext1 cs assetCfg payout agent s0) cs)
            = noBus (replay (prepare cfg ext2 cs assetCfg payout agent s0) cs)"
      by (simp only: noBus_replay [symmetric] prepare_ext [OF assms, of cfg ext1 cs assetCfg payout s0 ext2])
    then show "outcomeOf (finish cfg ext1 cs (replay (prepare cfg ext1 cs assetCfg payout agent s0) cs))
        = outcomeOf (finish cfg ext2 cs (replay (prepare cfg ext2 cs assetCfg payout agent s0) cs))"
      by (rule finish_outcome)
  qed
  show ?thesis
    by (simp add: run_def Let_def k split: sum.splits prod.splits)
qed

lemma patient_ignores_run_id:
  "\<forall>s r1 r2 obs. initialize patientAgent s r1 obs = initialize patientAgent s r2 obs"
  by (simp add: patientAgent_def)

lemma patient_balance:
  "finalBalanceOf (run sampleConfig sampleDb (sampleExt ''xya'') patientAgent False) = Some 117"
  by code_simp

theorem replay_outcome_independent_of_run_id_witness:
  "map_sum id outcomeOf (run sampleConfig sampleDb (sampleExt ''xya'') patientAgent False)
     = map_sum id outcomeOf (run sampleConfig sampleDb (sampleExt ''xyb'') patientAgent False)
   \<and> finalBalanceOf (run sampleConfig sampleDb (sampleExt ''xya'') patientAgent False) = Some 117"
  using replay_outcome_independent_of_run_id [OF patient_ignores_run_id, of sampleConfig sampleDb
      "sampleExt ''xya''" False "sampleExt ''xyb''"] patient_balance
  by (rule conjI)

text \<open>
  The run id is built from the date and from \<^verbatim>\<open>Math.random()\<close>, and \<open>run\<close> hands it
  to the agent in the context of \<open>initialize\<close>. An agent that reads it can trade on it: the
  agent below buys a call when the run id ends in \<^verbatim>\<open>a\<close> and a put otherwise, and two
  runs on the same dataset, configuration and balance settle different trades and end
  with different balances.
\<close>

theorem run_id_reaches_the_agent:
  "settledOf (run sampleConfig sampleDb (sampleExt ''xya'') runIdAgent ([], False)) = [(Call, ''win'', 17)]
   \<and> settledOf (run sampleConfig sampleDb (sampleExt ''xyb'') runIdAgent ([], False)) = [(Put, ''loss'', - 20)]
   \<and> finalBalanceOf (run sampleConfig sampleDb (sampleExt ''xya'') runIdAgent ([], False)) = Some 117
   \<and> finalBalanceOf (run sampleConfig sampleDb (sampleExt ''xyb'') runIdAgent ([], False)) = Some 80"
  by code_simp



end
